theory Spec2Isabelle
  imports Complex_Main
begin

section \<open>Values\<close>

text \<open>
  The model follows \<^verbatim>\<open>scripts/msct_shape.py\<close>. Floating-point numbers are idealised
  as reals; the results that numpy reports as \<^verbatim>\<open>nan\<close> or \<^verbatim>\<open>inf\<close> (a division
  by zero on numpy scalars or arrays warns and does not raise) are the one value
  \<open>NonFinite\<close>. Python exceptions are values of \<open>py_error\<close>.
\<close>

datatype py_error = TypeError | KeyError | IndexError | ZeroDivisionError | ValueError | RuntimeError

datatype pynum = Num real | NonFinite

text \<open>A value stored in a properties dictionary: a number, or a tuple or array of values.\<close>

datatype pyval = Number pynum | Seq "pyval list"

type_synonym pydict = "string \<rightharpoonup> pyval"

text \<open>
  Dictionaries are mutable objects: the store maps the address of every dictionary
  object to its current contents. A Python value of the kind passed to
  \<^verbatim>\<open>assign_AP_and_RL_diameter\<close> is \<^verbatim>\<open>None\<close> or a reference to a dictionary.
\<close>

type_synonym heap = "nat \<Rightarrow> pydict"

datatype pyobj = PyNone | Ref nat

definition getitem :: "pydict \<Rightarrow> string \<Rightarrow> py_error + pyval" where
  "getitem d k = (case d k of None \<Rightarrow> Inl KeyError | Some v \<Rightarrow> Inr v)"

text \<open>
  The chained comparison \<^verbatim>\<open>-45.0 < v < 45.0\<close>. Every comparison with \<^verbatim>\<open>nan\<close> is
  false and no infinity lies strictly between the bounds; a tuple or an array is not
  ordered against a float.
\<close>

fun between_45 :: "pyval \<Rightarrow> py_error + bool" where
  "between_45 (Number (Num o_deg)) = Inr (- 45 < o_deg \<and> o_deg < 45)"
| "between_45 (Number NonFinite) = Inr False"
| "between_45 (Seq vs) = Inl TypeError"

section \<open>Axis disambiguation\<close>

text \<open>
  \<^verbatim>\<open>
  def assign_AP_and_RL_diameter(properties):
      if -45.0 < properties['orientation'] < 45.0:
          properties['RL_diameter'] = properties['major_axis_length']
          properties['AP_diameter'] = properties['minor_axis_length']
      else:
          properties['RL_diameter'] = properties['minor_axis_length']
          properties['AP_diameter'] = properties['major_axis_length']
      return properties
  \<close>
  Subscripting \<^verbatim>\<open>None\<close> raises TypeError. The two stores go to the object the
  argument refers to, and the same reference is returned.
\<close>

definition assign_AP_and_RL_diameter :: "heap \<Rightarrow> pyobj \<Rightarrow> py_error + (heap \<times> pyobj)" where
  "assign_AP_and_RL_diameter h properties =
     (case properties of
        PyNone \<Rightarrow> Inl TypeError
      | Ref a \<Rightarrow>
          (case getitem (h a) ''orientation'' of
             Inl e \<Rightarrow> Inl e
           | Inr orient \<Rightarrow>
               (case between_45 orient of
                  Inl e \<Rightarrow> Inl e
                | Inr c \<Rightarrow>
                    (let first_key = (if c then ''major_axis_length'' else ''minor_axis_length'');
                         second_key = (if c then ''minor_axis_length'' else ''major_axis_length'')
                     in case getitem (h a) first_key of
                          Inl e \<Rightarrow> Inl e
                        | Inr rl \<Rightarrow>
                            (let h1 = h(a := (h a)(''RL_diameter'' \<mapsto> rl))
                             in case getitem (h1 a) second_key of
                                  Inl e \<Rightarrow> Inl e
                                | Inr ap \<Rightarrow>
                                    Inr (h1(a := (h1 a)(''AP_diameter'' \<mapsto> ap)), Ref a))))))"

section \<open>Region property extraction\<close>

text \<open>
  One entry of \<^verbatim>\<open>skimage.measure.regionprops\<close>: the attributes that
  \<^verbatim>\<open>properties2d\<close> reads. \<open>area\<close> is a pixel count; the axis lengths are Python
  floats (\<^verbatim>\<open>4 * math.sqrt(eigenvalue)\<close>).
\<close>

record region =
  area :: nat
  bbox :: pyval
  centroid :: "real \<times> real"
  eccentricity :: real
  equivalent_diameter :: real
  euler_number :: int
  inertia_tensor :: pyval
  inertia_tensor_eigvals :: pyval
  minor_axis_length :: real
  major_axis_length :: real
  moments :: pyval
  moments_central :: pyval
  orientation :: real
  perimeter :: real
  solidity :: real

type_synonym image = "real list list"

text \<open>
  The library calls are parameters: \<open>regionprops img\<close> stands for
  \<^verbatim>\<open>measure.regionprops(measure.label(np.transpose(img)))\<close>,
  \<open>map_coordinates img cs\<close> for
  \<^verbatim>\<open>map_coordinates(img, cs.T, output=np.float32, order=0, mode='constant', cval=0.0)\<close>,
  one sampled value per coordinate pair, and \<open>argsort areas\<close> for
  \<^verbatim>\<open>np.argsort(areas)\<close>, the indices of \<open>areas\<close> in an ascending order of
  area. numpy sorts with its default quicksort, which does not promise to keep equal
  areas in their order.
\<close>

record lib =
  regionprops :: "image \<Rightarrow> region list"
  map_coordinates :: "image \<Rightarrow> (real \<times> real) list \<Rightarrow> real list"
  argsort :: "nat list \<Rightarrow> nat list"

text \<open>
  \<^verbatim>\<open>
  areas = [r.area for r in regions]
  ix = np.argsort(areas)
  if len(regions) != 0:
      sc_region = regions[ix[-1]]
  \<close>
  Both subscripts raise IndexError out of range.
\<close>

definition selected_index :: "lib \<Rightarrow> region list \<Rightarrow> nat" where
  "selected_index L regions = last (argsort L (map area regions))"

definition sc_region_of :: "lib \<Rightarrow> region list \<Rightarrow> py_error + region option" where
  "sc_region_of L regions =
     (let areas = map area regions;
          ix = argsort L areas
      in if length regions \<noteq> 0 then
           (if ix = [] then Inl IndexError
            else if last ix < length regions then Inr (Some (regions ! last ix))
            else Inl IndexError)
         else Inr None)"

text \<open>Division of Python floats raises on a zero divisor.\<close>

definition py_truediv :: "real \<Rightarrow> real \<Rightarrow> py_error + real" where
  "py_truediv a b = (if b = 0 then Inl ZeroDivisionError else Inr (a / b))"

text \<open>
  \<^verbatim>\<open>
  try:
      ratio_minor_major = sc_region.minor_axis_length / sc_region.major_axis_length
  except ZeroDivisionError:
      ratio_minor_major = 0.0
  \<close>
  Only ZeroDivisionError is caught; any other exception would propagate.
\<close>

definition ratio_minor_major :: "region \<Rightarrow> py_error + real" where
  "ratio_minor_major r =
     (case py_truediv (minor_axis_length r) (major_axis_length r) of
        Inl ZeroDivisionError \<Rightarrow> Inr 0
      | Inl e \<Rightarrow> Inl e
      | Inr q \<Rightarrow> Inr q)"

text \<open>\<^verbatim>\<open>int(x)\<close> on a float truncates towards zero.\<close>

definition py_int :: "real \<Rightarrow> int" where
  "py_int x = (if 0 \<le> x then \<lfloor>x\<rfloor> else \<lceil>x\<rceil>)"

text \<open>
  \<^verbatim>\<open>
  if resolution is not None:
      ...
      size_grid = 8.0 / resolution[0]
  else:
      size_grid = int(2.4 * sc_region.major_axis_length)
  \<close>
\<close>

definition size_grid_of :: "region \<Rightarrow> (real \<times> real) option \<Rightarrow> py_error + real" where
  "size_grid_of r resolution =
     (case resolution of
        Some (rx, ry) \<Rightarrow> py_truediv 8 rx
      | None \<Rightarrow> Inr (of_int (py_int (2.4 * major_axis_length r))))"

text \<open>
  One axis of \<^verbatim>\<open>np.mgrid[-size_grid:size_grid:resolution_grid, ...]\<close> with
  \<^verbatim>\<open>resolution_grid = 0.25\<close>: \<open>ceil((stop - start) / step)\<close> samples
  \<open>start + k * step\<close>; a negative count is rejected with ValueError.
\<close>

definition mgrid_axis :: "real \<Rightarrow> py_error + real list" where
  "mgrid_axis size_grid =
     (let n = \<lceil>(size_grid - (- size_grid)) / 0.25\<rceil>
      in if n < 0 then Inl ValueError
         else Inr (map (\<lambda>k. - size_grid + real k * 0.25) [0..<nat n]))"

text \<open>
  \<^verbatim>\<open>coordinates_grid\<close> pairs the two raveled grids (row-major: the first
  coordinate varies slowest), and \<^verbatim>\<open>coordinates_grid_image\<close> maps each pair
  \<open>(gx, gy)\<close> to \<open>(x0 + cos(orientation) * gx, y0 - sin(orientation) * gy)\<close>.
\<close>

definition coordinates_grid :: "real list \<Rightarrow> (real \<times> real) list" where
  "coordinates_grid g = concat (map (\<lambda>gx. map (\<lambda>gy. (gx, gy)) g) g)"

definition coordinates_grid_image :: "real \<Rightarrow> real \<Rightarrow> real \<Rightarrow> (real \<times> real) list \<Rightarrow> (real \<times> real) list" where
  "coordinates_grid_image x0 y0 orient cg =
     map (\<lambda>(gx, gy). (x0 + cos orient * gx, y0 - sin orient * gy)) cg"

text \<open>\<^verbatim>\<open>square.reshape((n, n))\<close>: \<open>n\<close> rows of \<open>n\<close> values; ValueError on a size mismatch.\<close>

fun rows_of :: "nat \<Rightarrow> nat \<Rightarrow> 'a list \<Rightarrow> 'a list list" where
  "rows_of 0 n xs = []"
| "rows_of (Suc m) n xs = take n xs # rows_of m n (drop n xs)"

definition reshape :: "nat \<Rightarrow> real list \<Rightarrow> py_error + image" where
  "reshape n square = (if length square = n * n then Inr (rows_of n n square) else Inl ValueError)"

text \<open>
  \<^verbatim>\<open>
  size_half = square_image.shape[1] / 2
  left_image = square_image[:, :size_half]
  right_image = np.fliplr(square_image[:, size_half:])
  dice_symmetry = np.sum(left_image[right_image == 1]) * 2.0 / (np.sum(left_image) + np.sum(right_image))
  \<close>
  \<open>shape[1]\<close> is the length of a row; the quotient is used as a slice bound, so it
  is the integer quotient. The boolean mask must have the shape of the indexed array
  (IndexError otherwise), which holds exactly when the two halves are equally wide.
  The sums are numpy scalars: a zero denominator gives \<^verbatim>\<open>nan\<close> or
  \<^verbatim>\<open>inf\<close>, not an exception.
\<close>

definition shape1 :: "image \<Rightarrow> nat" where
  "shape1 img = (case img of [] \<Rightarrow> 0 | row # rows \<Rightarrow> length row)"

definition left_image :: "image \<Rightarrow> image" where
  "left_image square_image = map (take (shape1 square_image div 2)) square_image"

definition right_image :: "image \<Rightarrow> image" where
  "right_image square_image = map (\<lambda>row. rev (drop (shape1 square_image div 2) row)) square_image"

definition np_sum :: "image \<Rightarrow> real" where
  "np_sum img = sum_list (map sum_list img)"

definition masked_sum :: "image \<Rightarrow> image \<Rightarrow> real" where
  "masked_sum left right =
     sum_list (map (\<lambda>(lrow, rrow). sum_list (map fst (filter (\<lambda>(l, r). r = 1) (zip lrow rrow))))
                   (zip left right))"

definition dice_symmetry :: "image \<Rightarrow> py_error + pynum" where
  "dice_symmetry square_image =
     (let size_half = shape1 square_image div 2;
          left = left_image square_image;
          right = right_image square_image
      in if size_half \<noteq> shape1 square_image - size_half then Inl IndexError
         else (let numerator = masked_sum left right * 2;
                   denominator = np_sum left + np_sum right
               in if denominator = 0 then Inr NonFinite
                  else Inr (Num (numerator / denominator))))"

text \<open>
  The resampled square of \<^verbatim>\<open>properties2d\<close>: the grid, its image coordinates
  about the centroid, the sampled values, reshaped. \<^verbatim>\<open>map_coordinates\<close>
  rejects an empty coordinate array (RuntimeError).
\<close>

definition resampled_square :: "lib \<Rightarrow> image \<Rightarrow> region \<Rightarrow> real \<Rightarrow> py_error + image" where
  "resampled_square L img r size_grid =
     (case mgrid_axis size_grid of
        Inl e \<Rightarrow> Inl e
      | Inr g \<Rightarrow>
          (let (y0, x0) = centroid r;
               cgi = coordinates_grid_image x0 y0 (orientation r) (coordinates_grid g)
           in if cgi = [] then Inl RuntimeError
              else reshape (length g) (map_coordinates L img cgi)))"

definition symmetry_of :: "lib \<Rightarrow> image \<Rightarrow> region \<Rightarrow> real \<Rightarrow> py_error + pynum" where
  "symmetry_of L img r size_grid =
     (case resampled_square L img r size_grid of
        Inl e \<Rightarrow> Inl e
      | Inr square_image \<Rightarrow> dice_symmetry square_image)"

text \<open>
  \<^verbatim>\<open>properties2d(image, resolution)\<close>: \<^verbatim>\<open>None\<close> when the labelling finds no
  region, else a new dictionary. With a resolution the area is scaled by
  \<open>rx * ry\<close> and the lengths by \<open>rx\<close>; the ratio is taken before the scaling.
\<close>

definition properties2d :: "lib \<Rightarrow> image \<Rightarrow> (real \<times> real) option \<Rightarrow> py_error + pydict option" where
  "properties2d L img resolution =
     (case sc_region_of L (regionprops L img) of
        Inl e \<Rightarrow> Inl e
      | Inr None \<Rightarrow> Inr None
      | Inr (Some r) \<Rightarrow>
          (case ratio_minor_major r of
             Inl e \<Rightarrow> Inl e
           | Inr ratio \<Rightarrow>
               (let area_scale = (case resolution of Some (rx, ry) \<Rightarrow> rx * ry | None \<Rightarrow> 1);
                    length_scale = (case resolution of Some (rx, ry) \<Rightarrow> rx | None \<Rightarrow> 1)
                in case size_grid_of r resolution of
                     Inl e \<Rightarrow> Inl e
                   | Inr size_grid \<Rightarrow>
                       (case symmetry_of L img r size_grid of
                          Inl e \<Rightarrow> Inl e
                        | Inr dice \<Rightarrow>
                            Inr (Some (map_of
                              [(''area'', Number (Num (real (area r) * area_scale))),
                               (''bbox'', bbox r),
                               (''centroid'', Seq [Number (Num (fst (centroid r))), Number (Num (snd (centroid r)))]),
                               (''eccentricity'', Number (Num (eccentricity r))),
                               (''equivalent_diameter'', Number (Num (equivalent_diameter r * length_scale))),
                               (''euler_number'', Number (Num (of_int (euler_number r)))),
                               (''inertia_tensor'', inertia_tensor r),
                               (''inertia_tensor_eigvals'', inertia_tensor_eigvals r),
                               (''minor_axis_length'', Number (Num (minor_axis_length r * length_scale))),
                               (''major_axis_length'', Number (Num (major_axis_length r * length_scale))),
                               (''moments'', moments r),
                               (''moments_central'', moments_central r),
                               (''orientation'', Number (Num (orientation r * 180 / pi))),
                               (''perimeter'', Number (Num (perimeter r))),
                               (''ratio_minor_major'', Number (Num ratio)),
                               (''solidity'', Number (Num (solidity r))),
                               (''symmetry'', Number dice)]))))))"

section \<open>Shape series along the centerline\<close>

definition property_list :: "string list" where
  "property_list =
     [''area'', ''equivalent_diameter'', ''AP_diameter'', ''RL_diameter'', ''ratio_minor_major'',
      ''eccentricity'', ''solidity'', ''orientation'', ''symmetry'']"

text \<open>
  The \<^verbatim>\<open>properties\<close> dictionary of \<^verbatim>\<open>compute_properties_along_centerline\<close>:
  one list per name. Slice indices are stored as the numbers they are.
\<close>

type_synonym series = "string \<rightharpoonup> pynum list"

definition init_properties :: series where
  "init_properties =
     (map_of (map (\<lambda>key. (key, [])) property_list))
       (''incremental_length'' \<mapsto> [], ''distance_from_C1'' \<mapsto> [],
        ''vertebral_level'' \<mapsto> [], ''z_slice'' \<mapsto> [])"

text \<open>
  What the loop reads from the \<^verbatim>\<open>Centerline\<close> object and the image:
  \<open>extract_perpendicular_square i\<close> is the patch sampled at point \<open>i\<close> (resolution
  0.5, constant border, fill value 0.0) and \<open>transfo_phys2pix_z i\<close> the third voxel
  coordinate of point \<open>i\<close>.
\<close>

record centerline =
  number_of_points :: nat
  incremental_length :: "real list"
  dist_points :: "real list"
  l_points :: "real list"
  progressive_length :: "real list"
  extract_perpendicular_square :: "nat \<Rightarrow> image"
  transfo_phys2pix_z :: "nat \<Rightarrow> int"

definition list_get :: "'a list \<Rightarrow> nat \<Rightarrow> py_error + 'a" where
  "list_get xs i = (if i < length xs then Inr (xs ! i) else Inl IndexError)"

text \<open>\<^verbatim>\<open>properties[key].append(v)\<close>.\<close>

definition series_append :: "series \<Rightarrow> string \<Rightarrow> pynum \<Rightarrow> py_error + series" where
  "series_append properties key v =
     (case properties key of
        None \<Rightarrow> Inl KeyError
      | Some xs \<Rightarrow> Inr (properties(key \<mapsto> xs @ [v])))"

text \<open>
  \<^verbatim>\<open>
  for property_name in property_list:
      properties[property_name].append(sc_properties[property_name])
  \<close>
  Every name of \<open>property_list\<close> holds a number in a dictionary built by
  \<^verbatim>\<open>properties2d\<close> and \<^verbatim>\<open>assign_AP_and_RL_diameter\<close>; a tuple there cannot
  become a sample of a numeric series (TypeError).
\<close>

fun append_all :: "series \<Rightarrow> pydict \<Rightarrow> string list \<Rightarrow> py_error + series" where
  "append_all properties sc_properties [] = Inr properties"
| "append_all properties sc_properties (property_name # names) =
     (case getitem sc_properties property_name of
        Inl e \<Rightarrow> Inl e
      | Inr (Seq vs) \<Rightarrow> Inl TypeError
      | Inr (Number v) \<Rightarrow>
          (case series_append properties property_name v of
             Inl e \<Rightarrow> Inl e
           | Inr properties' \<Rightarrow> append_all properties' sc_properties names))"

text \<open>\<^verbatim>\<open>patch_zero[patch_zero == value_out] = 0.0\<close>\<close>

definition patch_zero_of :: "real \<Rightarrow> image \<Rightarrow> image" where
  "patch_zero_of value_out current_patch =
     map (map (\<lambda>v. if v = value_out then 0 else v)) current_patch"

text \<open>
  The state of the sampling loop: the series, the store of dictionary objects and the
  warnings printed so far (each names a voxel z coordinate).
\<close>

record loop_state =
  properties :: series
  store :: heap
  warnings :: "int list"

text \<open>
  One iteration of the loop over \<^verbatim>\<open>range(centerline.number_of_points)\<close>:
  \<^verbatim>\<open>
  sc_properties = properties2d(patch_zero, [resolution, resolution])
  sc_properties = assign_AP_and_RL_diameter(sc_properties)
  if sc_properties is not None:
      properties['incremental_length'].append(centerline.incremental_length[index])
      if fname_discs:
          properties['distance_from_C1'].append(centerline.dist_points[index])
          properties['vertebral_level'].append(centerline.l_points[index])
      properties['z_slice'].append(image.transfo_phys2pix([centerline.points[index]])[0][2])
      for property_name in property_list:
          properties[property_name].append(sc_properties[property_name])
  else:
      c = image.transfo_phys2pix([centerline.points[index]])[0]
      sct.printv('WARNING: no properties for slice', c[2])
  \<close>
  The dictionary that \<^verbatim>\<open>properties2d\<close> creates at iteration \<open>index\<close> is the object
  at address \<open>index\<close>.
\<close>

definition append_discs :: "centerline \<Rightarrow> bool \<Rightarrow> nat \<Rightarrow> series \<Rightarrow> py_error + series" where
  "append_discs cl fname_discs index p =
     (if fname_discs then
        (case list_get (dist_points cl) index of
           Inl e \<Rightarrow> Inl e
         | Inr d \<Rightarrow>
             (case series_append p ''distance_from_C1'' (Num d) of
                Inl e \<Rightarrow> Inl e
              | Inr p1 \<Rightarrow>
                  (case list_get (l_points cl) index of
                     Inl e \<Rightarrow> Inl e
                   | Inr l \<Rightarrow> series_append p1 ''vertebral_level'' (Num l))))
      else Inr p)"

definition loop_body :: "lib \<Rightarrow> centerline \<Rightarrow> bool \<Rightarrow> loop_state \<Rightarrow> nat \<Rightarrow> py_error + loop_state" where
  "loop_body L cl fname_discs st index =
     (let value_out = 0;
          resolution = 0.5;
          patch_zero = patch_zero_of value_out (extract_perpendicular_square cl index)
      in case properties2d L patch_zero (Some (resolution, resolution)) of
           Inl e \<Rightarrow> Inl e
         | Inr created \<Rightarrow>
             (let h = (case created of None \<Rightarrow> store st | Some d \<Rightarrow> (store st)(index := d));
                  obj = (case created of None \<Rightarrow> PyNone | Some d \<Rightarrow> Ref index)
              in case assign_AP_and_RL_diameter h obj of
                   Inl e \<Rightarrow> Inl e
                 | Inr (h', PyNone) \<Rightarrow>
                     Inr (st\<lparr>store := h', warnings := warnings st @ [transfo_phys2pix_z cl index]\<rparr>)
                 | Inr (h', Ref a) \<Rightarrow>
                     (case list_get (incremental_length cl) index of
                        Inl e \<Rightarrow> Inl e
                      | Inr len \<Rightarrow>
                          (case series_append (properties st) ''incremental_length'' (Num len) of
                             Inl e \<Rightarrow> Inl e
                           | Inr p1 \<Rightarrow>
                               (case append_discs cl fname_discs index p1 of
                                  Inl e \<Rightarrow> Inl e
                                | Inr p2 \<Rightarrow>
                                    (case series_append p2 ''z_slice''
                                            (Num (of_int (transfo_phys2pix_z cl index))) of
                                       Inl e \<Rightarrow> Inl e
                                     | Inr p3 \<Rightarrow>
                                         (case append_all p3 (h' a) property_list of
                                            Inl e \<Rightarrow> Inl e
                                          | Inr p4 \<Rightarrow>
                                              Inr (st\<lparr>properties := p4, store := h'\<rparr>))))))))"

fun sampling_loop :: "lib \<Rightarrow> centerline \<Rightarrow> bool \<Rightarrow> loop_state \<Rightarrow> nat list \<Rightarrow> py_error + loop_state" where
  "sampling_loop L cl fname_discs st [] = Inr st"
| "sampling_loop L cl fname_discs st (index # rest) =
     (case loop_body L cl fname_discs st index of
        Inl e \<Rightarrow> Inl e
      | Inr st' \<Rightarrow> sampling_loop L cl fname_discs st' rest)"

section \<open>Smoothing\<close>

text \<open>
  \<^verbatim>\<open>scipy.signal.hann(M)\<close> with the symmetric default: empty for \<open>M < 1\<close>, a
  single one for \<open>M = 1\<close>, else the samples \<open>0.5 - 0.5 cos(2 pi n / (M - 1))\<close> for
  \<open>n\<close> in \<^verbatim>\<open>np.arange(0, M)\<close>, that is \<open>ceil(M)\<close> of them.
\<close>

definition hann :: "real \<Rightarrow> real list" where
  "hann M =
     (if M < 1 then []
      else if M = 1 then [1]
      else map (\<lambda>n. 0.5 - 0.5 * cos (2 * pi * real n / (M - 1))) [0..<nat \<lceil>M\<rceil>])"

text \<open>
  \<^verbatim>\<open>smooth_factor / np.mean(centerline.progressive_length)\<close>, the argument of
  \<^verbatim>\<open>hann\<close>. The mean of an empty list is \<^verbatim>\<open>nan\<close> and a zero mean gives an
  infinite quotient; \<^verbatim>\<open>np.arange\<close> rejects both (ValueError).
\<close>

definition window_length :: "real \<Rightarrow> real list \<Rightarrow> py_error + real" where
  "window_length smooth_factor progressive =
     (if progressive = [] then Inl ValueError
      else (let m = sum_list progressive / real (length progressive)
            in if m = 0 then Inl ValueError else Inr (smooth_factor / m)))"

text \<open>Arithmetic on samples: a non-finite operand makes the result non-finite.\<close>

fun pn_scale :: "pynum \<Rightarrow> real \<Rightarrow> pynum" where
  "pn_scale (Num a) w = Num (a * w)"
| "pn_scale NonFinite w = NonFinite"

fun pn_add :: "pynum \<Rightarrow> pynum \<Rightarrow> pynum" where
  "pn_add (Num a) (Num b) = Num (a + b)"
| "pn_add a b = NonFinite"

fun pn_div :: "pynum \<Rightarrow> real \<Rightarrow> pynum" where
  "pn_div (Num a) d = (if d = 0 then NonFinite else Num (a / d))"
| "pn_div NonFinite d = NonFinite"

text \<open>
  \<^verbatim>\<open>scipy.signal.convolve(xs, window, mode='same')\<close>: the full convolution
  \<open>full[k] = sum over j of xs[k - j] * window[j]\<close>, cut to the length of \<open>xs\<close> and
  centered, which starts it at offset \<open>(length window - 1) div 2\<close>. An empty series
  gives an empty result; an empty window is rejected (ValueError).
\<close>

definition conv_at :: "pynum list \<Rightarrow> real list \<Rightarrow> nat \<Rightarrow> pynum" where
  "conv_at xs window k =
     foldr pn_add
       (map (\<lambda>j. pn_scale (xs ! (k - j)) (window ! j))
            (filter (\<lambda>j. j \<le> k \<and> k - j < length xs) [0..<length window]))
       (Num 0)"

definition convolve_same :: "pynum list \<Rightarrow> real list \<Rightarrow> py_error + pynum list" where
  "convolve_same xs window =
     (if window = [] then Inl ValueError
      else Inr (map (\<lambda>k. conv_at xs window (k + (length window - 1) div 2)) [0..<length xs]))"

text \<open>
  \<^verbatim>\<open>
  for property_name in property_list:
      properties[property_name] = scipy.signal.convolve(properties[property_name], window, mode='same') / np.sum(window)
  \<close>
\<close>

fun smooth_all :: "real list \<Rightarrow> series \<Rightarrow> string list \<Rightarrow> py_error + series" where
  "smooth_all window p [] = Inr p"
| "smooth_all window p (property_name # names) =
     (case p property_name of
        None \<Rightarrow> Inl KeyError
      | Some xs \<Rightarrow>
          (case convolve_same xs window of
             Inl e \<Rightarrow> Inl e
           | Inr ys \<Rightarrow>
               smooth_all window
                 (p(property_name \<mapsto> map (\<lambda>y. pn_div y (sum_list window)) ys)) names))"

text \<open>
  \<^verbatim>\<open>
  if smooth_factor != 0.0:
      window = scipy.signal.hann(smooth_factor / np.mean(centerline.progressive_length))
      for property_name in property_list: ...
  \<close>
\<close>

definition smooth_properties :: "real \<Rightarrow> real list \<Rightarrow> series \<Rightarrow> py_error + series" where
  "smooth_properties smooth_factor progressive p =
     (if smooth_factor \<noteq> 0 then
        (case window_length smooth_factor progressive of
           Inl e \<Rightarrow> Inl e
         | Inr M \<Rightarrow> smooth_all (hann M) p property_list)
      else Inr p)"

section \<open>Averaging per slice\<close>

text \<open>Python's \<open>==\<close> on numbers; \<^verbatim>\<open>nan\<close> equals nothing.\<close>

fun py_eq :: "pynum \<Rightarrow> pynum \<Rightarrow> bool" where
  "py_eq (Num a) (Num b) = (a = b)"
| "py_eq a b = False"

text \<open>
  \<^verbatim>\<open>
  sorting_values = []
  for label in properties['z_slice']:
      if label not in sorting_values:
          sorting_values.append(label)
  \<close>
\<close>

fun sorting_values_from :: "pynum list \<Rightarrow> pynum list \<Rightarrow> pynum list" where
  "sorting_values_from acc [] = acc"
| "sorting_values_from acc (label # rest) =
     sorting_values_from (if \<not> list_ex (\<lambda>s. py_eq s label) acc then acc @ [label] else acc) rest"

definition sorting_values :: "pynum list \<Rightarrow> pynum list" where
  "sorting_values z_slice = sorting_values_from [] z_slice"

text \<open>\<^verbatim>\<open>np.mean\<close> of a list: \<^verbatim>\<open>nan\<close> for the empty list.\<close>

definition np_mean :: "pynum list \<Rightarrow> pynum" where
  "np_mean xs = (if xs = [] then NonFinite else pn_div (foldr pn_add xs (Num 0)) (real (length xs)))"

text \<open>
  \<^verbatim>\<open>[item for i, item in enumerate(properties[property_name]) if properties['z_slice'][i] == label]\<close>;
  the subscript raises IndexError when the property has more samples than \<open>z_slice\<close>.
\<close>

fun items_of :: "pynum list \<Rightarrow> pynum list \<Rightarrow> pynum \<Rightarrow> py_error + pynum list" where
  "items_of [] z_slice label = Inr []"
| "items_of (item # items) [] label = Inl IndexError"
| "items_of (item # items) (z # zs) label =
     (case items_of items zs label of
        Inl e \<Rightarrow> Inl e
      | Inr sel \<Rightarrow> Inr (if py_eq z label then item # sel else sel))"

fun averages_of :: "pynum list \<Rightarrow> pynum list \<Rightarrow> pynum list \<Rightarrow> py_error + pynum list" where
  "averages_of values z_slice [] = Inr []"
| "averages_of values z_slice (label # labels) =
     (case items_of values z_slice label of
        Inl e \<Rightarrow> Inl e
      | Inr sel \<Rightarrow>
          (case averages_of values z_slice labels of
             Inl e \<Rightarrow> Inl e
           | Inr avs \<Rightarrow> Inr (np_mean sel # avs)))"

text \<open>
  \<^verbatim>\<open>averaged_shape\<close> is an ordered dictionary: an association list in insertion
  order, one entry per name of \<open>property_list\<close>.
\<close>

fun average_loop :: "series \<Rightarrow> pynum list \<Rightarrow> pynum list \<Rightarrow> string list \<Rightarrow> py_error + (string \<times> pynum list) list" where
  "average_loop p z_slice labels [] = Inr []"
| "average_loop p z_slice labels (property_name # names) =
     (case p property_name of
        None \<Rightarrow> Inl KeyError
      | Some values \<Rightarrow>
          (case averages_of values z_slice labels of
             Inl e \<Rightarrow> Inl e
           | Inr avs \<Rightarrow>
               (case average_loop p z_slice labels names of
                  Inl e \<Rightarrow> Inl e
                | Inr shape \<Rightarrow> Inr ((property_name, avs) # shape))))"

definition average_properties :: "series \<Rightarrow> py_error + (string \<times> pynum list) list" where
  "average_properties p =
     (case p ''z_slice'' of
        None \<Rightarrow> Inl KeyError
      | Some z_slice \<Rightarrow> average_loop p z_slice (sorting_values z_slice) property_list)"

text \<open>The part of the function after the sampling loop: smoothing, then averaging.\<close>

definition finalize :: "real \<Rightarrow> real list \<Rightarrow> series \<Rightarrow> py_error + (string list \<times> (string \<times> pynum list) list)" where
  "finalize smooth_factor progressive p =
     (case smooth_properties smooth_factor progressive p of
        Inl e \<Rightarrow> Inl e
      | Inr p' \<Rightarrow>
          (case average_properties p' of
             Inl e \<Rightarrow> Inl e
           | Inr averaged_shape \<Rightarrow> Inr (property_list, averaged_shape)))"

text \<open>
  \<^verbatim>\<open>compute_properties_along_centerline\<close> from the initialisation of
  \<^verbatim>\<open>properties\<close> on; reading the volume and fitting the centerline come before.
  The result carries the printed warnings beside the returned pair.
\<close>

definition compute_properties_along_centerline ::
  "lib \<Rightarrow> centerline \<Rightarrow> bool \<Rightarrow> real \<Rightarrow> py_error + (int list \<times> string list \<times> (string \<times> pynum list) list)" where
  "compute_properties_along_centerline L cl fname_discs smooth_factor =
     (case sampling_loop L cl fname_discs
             \<lparr>properties = init_properties, store = (\<lambda>a. Map.empty), warnings = []\<rparr>
             [0..<number_of_points cl] of
        Inl e \<Rightarrow> Inl e
      | Inr st \<Rightarrow>
          (case finalize smooth_factor (progressive_length cl) (properties st) of
             Inl e \<Rightarrow> Inl e
           | Inr (names, averaged_shape) \<Rightarrow> Inr (warnings st, names, averaged_shape)))"

section \<open>The aggregation as the specification words it\<close>

text \<open>
  The distinct labels of a sequence in the order of their first occurrence, the
  samples of a series whose slice label is a given one, and the arithmetic mean.
\<close>

definition znum :: "int \<Rightarrow> pynum" where
  "znum z = Num (of_int z)"

definition first_seen :: "'a list \<Rightarrow> 'a list" where
  "first_seen xs = rev (remdups (rev xs))"

definition values_at :: "int \<Rightarrow> int list \<Rightarrow> real list \<Rightarrow> real list" where
  "values_at label zs vs = map snd (filter (\<lambda>(z, v). z = label) (zip zs vs))"

definition arithmetic_mean :: "real list \<Rightarrow> real" where
  "arithmetic_mean xs = sum_list xs / real (length xs)"

definition averaged_spec :: "int list \<Rightarrow> real list \<Rightarrow> pynum list" where
  "averaged_spec zs vs = map (\<lambda>label. Num (arithmetic_mean (values_at label zs vs))) (first_seen zs)"

section \<open>The Dice overlap as the specification words it\<close>

text \<open>
  The two halves as label images, every foreground (nonzero) pixel treated as label 1:
  the number of foreground pixels, the number of positions that are foreground in
  both, and \<open>2 |L \<inter> R| / (|L| + |R|)\<close>.
\<close>

definition foreground_count :: "image \<Rightarrow> nat" where
  "foreground_count img = length (filter (\<lambda>v. v \<noteq> 0) (concat img))"

definition overlap_count :: "image \<Rightarrow> image \<Rightarrow> nat" where
  "overlap_count left right =
     length (filter (\<lambda>(l, r). l \<noteq> 0 \<and> r \<noteq> 0)
               (concat (map (\<lambda>(lrow, rrow). zip lrow rrow) (zip left right))))"

definition dice_overlap :: "image \<Rightarrow> image \<Rightarrow> real" where
  "dice_overlap left right =
     2 * real (overlap_count left right) / real (foreground_count left + foreground_count right)"

section \<open>The smoothing as the specification words it\<close>


section \<open>A hollow rectangle\<close>

text \<open>
  An 80 by 80 binary patch holding the one-pixel-wide outline of a rectangle, rows 10
  to 69 and columns 20 to 59: one connected region of 196 pixels whose centroid
  \<open>(39.5, 39.5)\<close> lies in the hole.
\<close>

definition ring_patch :: image where
  "ring_patch =
     map (\<lambda>i. map (\<lambda>j. if ((i = 10 \<or> i = 69) \<and> 20 \<le> j \<and> j \<le> 59) \<or>
                             ((j = 20 \<or> j = 59) \<and> 10 \<le> i \<and> i \<le> 69)
                          then 1 else 0) [0..<80::nat]) [0..<80::nat]"

definition blank_patch :: image where
  "blank_patch = replicate 80 (replicate 80 0)"

text \<open>
  Order-0 sampling with constant fill: the value of the pixel nearest to each
  coordinate pair, 0 outside the array.
\<close>

definition nearest :: "image \<Rightarrow> (real \<times> real) list \<Rightarrow> real list" where
  "nearest img cs =
     map (\<lambda>(x, y).
            let i = \<lfloor>x + 1 / 2\<rfloor>; j = \<lfloor>y + 1 / 2\<rfloor>
            in if 0 \<le> i \<and> i < int (length img) \<and> 0 \<le> j \<and> j < int (length (img ! nat i))
               then img ! nat i ! nat j else 0) cs"

text \<open>
  The region of the outline in the transposed label image: rows 20 to 59, columns 10
  to 69. The second central moments are 102129 along the columns and 54769 along the
  rows, the mixed one is 0, so the major axis lies along the columns and the
  orientation is 0. The moment arrays, which only pass through
  \<^verbatim>\<open>properties2d\<close>, are left empty.
\<close>

definition ring_region :: region where
  "ring_region =
     \<lparr>area = 196,
      bbox = Seq [Number (Num 20), Number (Num 10), Number (Num 60), Number (Num 70)],
      centroid = (79 / 2, 79 / 2),
      eccentricity = sqrt (1 - 54769 / 102129),
      equivalent_diameter = sqrt (4 * 196 / pi),
      euler_number = 0,
      inertia_tensor = Seq [Seq [Number (Num (102129 / 196)), Number (Num 0)],
                            Seq [Number (Num 0), Number (Num (54769 / 196))]],
      inertia_tensor_eigvals = Seq [Number (Num (102129 / 196)), Number (Num (54769 / 196))],
      minor_axis_length = 4 * sqrt (54769 / 196),
      major_axis_length = 4 * sqrt (102129 / 196),
      moments = Seq [],
      moments_central = Seq [],
      orientation = 0,
      perimeter = 196,
      solidity = 196 / 2400\<rparr>"

text \<open>
  The library on the two patches used below: the outline has its one region, a patch
  without foreground has none. A list of at most one area has one ascending order of
  its indices.
\<close>

definition ring_lib :: lib where
  "ring_lib = \<lparr>regionprops = (\<lambda>img. if img = ring_patch then [ring_region] else []),
               map_coordinates = nearest,
               argsort = (\<lambda>areas. sort_key (\<lambda>i. areas ! i) [0..<length areas])\<rparr>"

text \<open>What \<^verbatim>\<open>properties2d\<close> returns for the outline at resolution 0.5.\<close>

definition ring_properties :: pydict where
  "ring_properties =
     map_of
       [(''area'', Number (Num 49)),
        (''bbox'', Seq [Number (Num 20), Number (Num 10), Number (Num 60), Number (Num 70)]),
        (''centroid'', Seq [Number (Num (79 / 2)), Number (Num (79 / 2))]),
        (''eccentricity'', Number (Num (sqrt (47360 / 102129)))),
        (''equivalent_diameter'', Number (Num (sqrt (784 / pi) / 2))),
        (''euler_number'', Number (Num 0)),
        (''inertia_tensor'', Seq [Seq [Number (Num (102129 / 196)), Number (Num 0)],
                                  Seq [Number (Num 0), Number (Num (54769 / 196))]]),
        (''inertia_tensor_eigvals'', Seq [Number (Num (102129 / 196)), Number (Num (54769 / 196))]),
        (''minor_axis_length'', Number (Num (2 * sqrt (54769 / 196)))),
        (''major_axis_length'', Number (Num (2 * sqrt (102129 / 196)))),
        (''moments'', Seq []),
        (''moments_central'', Seq []),
        (''orientation'', Number (Num 0)),
        (''perimeter'', Number (Num 196)),
        (''ratio_minor_major'', Number (Num (sqrt (54769 / 196) / sqrt (102129 / 196)))),
        (''solidity'', Number (Num (49 / 600))),
        (''symmetry'', Number NonFinite)]"

text \<open>The same dictionary after \<^verbatim>\<open>assign_AP_and_RL_diameter\<close>.\<close>

definition ring_assigned :: pydict where
  "ring_assigned =
     ring_properties(''RL_diameter'' \<mapsto> Number (Num (2 * sqrt (102129 / 196))),
                     ''AP_diameter'' \<mapsto> Number (Num (2 * sqrt (54769 / 196))))"

text \<open>The series after the one sample of the outline, at slice 7.\<close>

definition ring_series :: series where
  "ring_series =
     map_of
       [(''area'', [Num 49]),
        (''equivalent_diameter'', [Num (sqrt (784 / pi) / 2)]),
        (''AP_diameter'', [Num (2 * sqrt (54769 / 196))]),
        (''RL_diameter'', [Num (2 * sqrt (102129 / 196))]),
        (''ratio_minor_major'', [Num (sqrt (54769 / 196) / sqrt (102129 / 196))]),
        (''eccentricity'', [Num (sqrt (47360 / 102129))]),
        (''solidity'', [Num (49 / 600)]),
        (''orientation'', [Num 0]),
        (''symmetry'', [NonFinite]),
        (''incremental_length'', [Num 0]),
        (''distance_from_C1'', []),
        (''vertebral_level'', []),
        (''z_slice'', [Num 7])]"

text \<open>The averaged shape of that run: one slice, each value its own mean.\<close>

definition ring_shape :: "(string \<times> pynum list) list" where
  "ring_shape =
     [(''area'', [Num 49]),
      (''equivalent_diameter'', [Num (sqrt (784 / pi) / 2)]),
      (''AP_diameter'', [Num (2 * sqrt (54769 / 196))]),
      (''RL_diameter'', [Num (2 * sqrt (102129 / 196))]),
      (''ratio_minor_major'', [Num (sqrt (54769 / 196) / sqrt (102129 / 196))]),
      (''eccentricity'', [Num (sqrt (47360 / 102129))]),
      (''solidity'', [Num (49 / 600)]),
      (''orientation'', [Num 0]),
      (''symmetry'', [NonFinite])]"

text \<open>
  The region of a single foreground pixel at row 3, column 5 of a patch: both axis
  lengths are 0.
\<close>

definition dot_region :: region where
  "dot_region =
     \<lparr>area = 1,
      bbox = Seq [Number (Num 5), Number (Num 3), Number (Num 6), Number (Num 4)],
      centroid = (5, 3),
      eccentricity = 0,
      equivalent_diameter = sqrt (4 / pi),
      euler_number = 1,
      inertia_tensor = Seq [Seq [Number (Num 0), Number (Num 0)], Seq [Number (Num 0), Number (Num 0)]],
      inertia_tensor_eigvals = Seq [Number (Num 0), Number (Num 0)],
      minor_axis_length = 0,
      major_axis_length = 0,
      moments = Seq [],
      moments_central = Seq [],
      orientation = pi / 4,
      perimeter = 0,
      solidity = 1\<rparr>"

section \<open>A solid rectangle\<close>

text \<open>
  An 80 by 80 patch holding a filled rectangle, rows 20 to 59 and columns 30 to 49,
  of value \<open>v\<close>: one connected region of 800 pixels with centroid \<open>(39.5, 39.5)\<close>.
  In the transposed label image it spans rows 30 to 49 and columns 20 to 59; the
  second central moments per pixel are 1599 / 12 along the columns and 399 / 12 along
  the rows, so the orientation is 0. The moment arrays are left empty.
\<close>

definition block_patch :: "real \<Rightarrow> image" where
  "block_patch v =
     map (\<lambda>i. map (\<lambda>j. if 20 \<le> i \<and> i \<le> 59 \<and> 30 \<le> j \<and> j \<le> 49 then v else 0)
                  [0..<80::nat]) [0..<80::nat]"

definition block_region :: region where
  "block_region =
     \<lparr>area = 800,
      bbox = Seq [Number (Num 30), Number (Num 20), Number (Num 50), Number (Num 60)],
      centroid = (79 / 2, 79 / 2),
      eccentricity = sqrt (1 - 399 / 1599),
      equivalent_diameter = sqrt (4 * 800 / pi),
      euler_number = 1,
      inertia_tensor = Seq [Seq [Number (Num (1599 / 12)), Number (Num 0)],
                            Seq [Number (Num 0), Number (Num (399 / 12))]],
      inertia_tensor_eigvals = Seq [Number (Num (1599 / 12)), Number (Num (399 / 12))],
      minor_axis_length = 4 * sqrt (399 / 12),
      major_axis_length = 4 * sqrt (1599 / 12),
      moments = Seq [],
      moments_central = Seq [],
      orientation = 0,
      perimeter = 116,
      solidity = 1\<rparr>"

definition block_lib :: lib where
  "block_lib =
     \<lparr>regionprops = (\<lambda>img. if img = block_patch 1 \<or> img = block_patch 3 then [block_region] else []),
      map_coordinates = nearest,
      argsort = (\<lambda>areas. sort_key (\<lambda>i. areas ! i) [0..<length areas])\<rparr>"

text \<open>
  At resolution 0.5 all 128 by 128 samples fall inside the rectangle: the resampled
  square is constant.
\<close>

definition block_square :: "real \<Rightarrow> image" where
  "block_square v = replicate 128 (replicate 128 v)"

text \<open>What \<^verbatim>\<open>properties2d\<close> returns for the rectangle, with its symmetry entry.\<close>

definition block_properties :: "pynum \<Rightarrow> pydict" where
  "block_properties symmetry =
     map_of
       [(''area'', Number (Num 200)),
        (''bbox'', Seq [Number (Num 30), Number (Num 20), Number (Num 50), Number (Num 60)]),
        (''centroid'', Seq [Number (Num (79 / 2)), Number (Num (79 / 2))]),
        (''eccentricity'', Number (Num (sqrt (1200 / 1599)))),
        (''equivalent_diameter'', Number (Num (sqrt (3200 / pi) / 2))),
        (''euler_number'', Number (Num 1)),
        (''inertia_tensor'', Seq [Seq [Number (Num (1599 / 12)), Number (Num 0)],
                                  Seq [Number (Num 0), Number (Num (399 / 12))]]),
        (''inertia_tensor_eigvals'', Seq [Number (Num (1599 / 12)), Number (Num (399 / 12))]),
        (''minor_axis_length'', Number (Num (2 * sqrt (399 / 12)))),
        (''major_axis_length'', Number (Num (2 * sqrt (1599 / 12)))),
        (''moments'', Seq []),
        (''moments_central'', Seq []),
        (''orientation'', Number (Num 0)),
        (''perimeter'', Number (Num 116)),
        (''ratio_minor_major'', Number (Num (sqrt (399 / 12) / sqrt (1599 / 12)))),
        (''solidity'', Number (Num 1)),
        (''symmetry'', Number symmetry)]"

section \<open>Twenty regions with tied areas\<close>

text \<open>
  The region of a filled square of the given side with its first pixel at the given
  row and column of the label image.
\<close>

definition square_region :: "nat \<Rightarrow> nat \<Rightarrow> nat \<Rightarrow> region" where
  "square_region side row col =
     \<lparr>area = side * side,
      bbox = Seq [Number (Num (real row)), Number (Num (real col)),
                  Number (Num (real (row + side))), Number (Num (real (col + side)))],
      centroid = (real row + (real side - 1) / 2, real col + (real side - 1) / 2),
      eccentricity = 0,
      equivalent_diameter = sqrt (4 * real (side * side) / pi),
      euler_number = 1,
      inertia_tensor = Seq [Seq [Number (Num ((real (side * side) - 1) / 12)), Number (Num 0)],
                            Seq [Number (Num 0), Number (Num ((real (side * side) - 1) / 12))]],
      inertia_tensor_eigvals = Seq [Number (Num ((real (side * side) - 1) / 12)),
                                    Number (Num ((real (side * side) - 1) / 12))],
      minor_axis_length = 4 * sqrt ((real (side * side) - 1) / 12),
      major_axis_length = 4 * sqrt ((real (side * side) - 1) / 12),
      moments = Seq [],
      moments_central = Seq [],
      orientation = pi / 4,
      perimeter = 4 * (real side - 1),
      solidity = 1\<rparr>"

text \<open>
  A labelling of five squares of side 3 followed by fifteen single pixels, in raster
  order on a grid of pitch 8: the areas are 9, 9, 9, 9, 9 and fifteen times 1. The
  patch is the transpose of the label image.
\<close>

definition tie_regions :: "region list" where
  "tie_regions =
     map (\<lambda>k. square_region (if k < 5 then 3 else 1) (8 * (k div 5) + 2) (8 * (k mod 5) + 2))
         [0..<20]"

definition tie_patch :: image where
  "tie_patch =
     map (\<lambda>i. map (\<lambda>j. if list_ex (\<lambda>k. 8 * (k div 5) + 2 \<le> j \<and> j < 8 * (k div 5) + 2 + (if k < 5 then 3 else 1) \<and>
                                        8 * (k mod 5) + 2 \<le> i \<and> i < 8 * (k mod 5) + 2 + (if k < 5 then 3 else 1))
                                   [0..<20]
                          then 1 else 0) [0..<80::nat]) [0..<80::nat]"

definition tie_areas :: "nat list" where
  "tie_areas = [9, 9, 9, 9, 9, 1, 1, 1, 1, 1, 1, 1, 1, 1, 1, 1, 1, 1, 1, 1]"

text \<open>
  What the quicksort of numpy 1.x, the default kind of \<^verbatim>\<open>np.argsort\<close>,
  returns for these areas. A list of more than 17 elements is
  partitioned about the median of its first, middle and last element: here the
  median-of-three step exchanges the first index with the middle one (area 1 against
  area 9) and then the middle with the last (again 1 against 9), which puts index 0 at
  the last position. The partition leaves the last position alone, and the final
  insertion sort moves an index only past strictly larger areas, so index 0 stays last.
\<close>

definition tie_order :: "nat list" where
  "tie_order = [9, 17, 16, 15, 14, 13, 12, 11, 10, 19, 8, 7, 6, 5, 18, 4, 3, 2, 1, 0]"

definition tie_lib :: lib where
  "tie_lib =
     \<lparr>regionprops = (\<lambda>img. if img = tie_patch then tie_regions else []),
      map_coordinates = nearest,
      argsort = (\<lambda>areas. if areas = tie_areas then tie_order
                           else sort_key (\<lambda>i. areas ! i) [0..<length areas])\<rparr>"

text \<open>
  A centerline of one point whose patch is the outline, and one of two points whose
  second patch has no foreground.
\<close>

definition ring_centerline :: centerline where
  "ring_centerline =
     \<lparr>number_of_points = 1, incremental_length = [0], dist_points = [], l_points = [],
      progressive_length = [1 / 2],
      extract_perpendicular_square = (\<lambda>index. ring_patch),
      transfo_phys2pix_z = (\<lambda>index. 7)\<rparr>"

definition gap_centerline :: centerline where
  "gap_centerline =
     \<lparr>number_of_points = 2, incremental_length = [0, 1 / 2], dist_points = [], l_points = [],
      progressive_length = [1 / 2, 1 / 2],
      extract_perpendicular_square = (\<lambda>index. if index = 0 then ring_patch else blank_patch),
      transfo_phys2pix_z = (\<lambda>index. 7 + int index)\<rparr>"

section \<open>Properties of the axis disambiguation\<close>

text \<open>
  Claim C6. On a dictionary whose orientation is a number of degrees, the function sets
  \<open>RL_diameter\<close> to the major and \<open>AP_diameter\<close> to the minor axis length when
  the orientation lies strictly between -45 and 45, and the other way round otherwise.
\<close>

theorem axis_disambiguation:
  assumes "h a ''orientation'' = Some (Number (Num o_deg))"
    and "h a ''major_axis_length'' = Some major"
    and "h a ''minor_axis_length'' = Some minor"
  shows "\<exists>h'. assign_AP_and_RL_diameter h (Ref a) = Inr (h', Ref a) \<and>
           h' a ''RL_diameter'' = Some (if - 45 < o_deg \<and> o_deg < 45 then major else minor) \<and>
           h' a ''AP_diameter'' = Some (if - 45 < o_deg \<and> o_deg < 45 then minor else major)"
  using assms by (simp add: assign_AP_and_RL_diameter_def getitem_def Let_def)

text \<open>Orientation 0 gives the major axis as \<open>RL_diameter\<close>, orientation 90 the minor axis.\<close>

theorem axis_disambiguation_witness:
  "(\<exists>h'. assign_AP_and_RL_diameter
            (\<lambda>a. [''orientation'' \<mapsto> Number (Num 0), ''major_axis_length'' \<mapsto> Number (Num 4),
                   ''minor_axis_length'' \<mapsto> Number (Num 2)]) (Ref 0) = Inr (h', Ref 0) \<and>
         h' 0 ''RL_diameter'' = Some (Number (Num 4)) \<and>
         h' 0 ''AP_diameter'' = Some (Number (Num 2))) \<and>
   (\<exists>h'. assign_AP_and_RL_diameter
            (\<lambda>a. [''orientation'' \<mapsto> Number (Num 90), ''major_axis_length'' \<mapsto> Number (Num 4),
                   ''minor_axis_length'' \<mapsto> Number (Num 2)]) (Ref 0) = Inr (h', Ref 0) \<and>
         h' 0 ''RL_diameter'' = Some (Number (Num 2)) \<and>
         h' 0 ''AP_diameter'' = Some (Number (Num 4)))"
  using axis_disambiguation [of "\<lambda>a. [''orientation'' \<mapsto> Number (Num 0),
            ''major_axis_length'' \<mapsto> Number (Num 4), ''minor_axis_length'' \<mapsto> Number (Num 2)]"
          0 0 "Number (Num 4)" "Number (Num 2)"]
        axis_disambiguation [of "\<lambda>a. [''orientation'' \<mapsto> Number (Num 90),
            ''major_axis_length'' \<mapsto> Number (Num 4), ''minor_axis_length'' \<mapsto> Number (Num 2)]"
          0 90 "Number (Num 4)" "Number (Num 2)"]
  by simp

text \<open>
  Claim C9. A call that returns has returned the reference it was given; in the store
  only the object referred to has changed: it has the two new keys, every other key
  keeps its value, and a dictionary without the two keys (as \<^verbatim>\<open>properties2d\<close>
  builds it) is contained in the updated one.
\<close>

theorem assign_in_place:
  assumes "assign_AP_and_RL_diameter h props = Inr (h', result)"
  shows "result = props \<and>
         (\<exists>a. props = Ref a \<and>
              dom (h' a) = dom (h a) \<union> {''RL_diameter'', ''AP_diameter''} \<and>
              (\<forall>k. k \<noteq> ''RL_diameter'' \<longrightarrow> k \<noteq> ''AP_diameter'' \<longrightarrow> h' a k = h a k) \<and>
              (''RL_diameter'' \<notin> dom (h a) \<longrightarrow> ''AP_diameter'' \<notin> dom (h a) \<longrightarrow> h a \<subseteq>\<^sub>m h' a) \<and>
              (\<forall>b. b \<noteq> a \<longrightarrow> h' b = h b))"
  using assms
  by (auto simp: assign_AP_and_RL_diameter_def getitem_def Let_def map_le_def
      split: pyobj.splits option.splits sum.splits if_splits)

theorem assign_in_place_witness:
  "\<exists>h'. assign_AP_and_RL_diameter
            (\<lambda>a. [''orientation'' \<mapsto> Number (Num 0), ''major_axis_length'' \<mapsto> Number (Num 4),
                   ''minor_axis_length'' \<mapsto> Number (Num 2)]) (Ref 0) = Inr (h', Ref 0) \<and>
        dom (h' 0) = {''orientation'', ''major_axis_length'', ''minor_axis_length'',
                      ''RL_diameter'', ''AP_diameter''} \<and>
        h' 0 ''orientation'' = Some (Number (Num 0)) \<and>
        h' 0 ''major_axis_length'' = Some (Number (Num 4)) \<and>
        h' 0 ''minor_axis_length'' = Some (Number (Num 2)) \<and>
        h' 1 = [''orientation'' \<mapsto> Number (Num 0), ''major_axis_length'' \<mapsto> Number (Num 4),
                   ''minor_axis_length'' \<mapsto> Number (Num 2)]"
proof -
  let ?d = "[''orientation'' \<mapsto> Number (Num 0), ''major_axis_length'' \<mapsto> Number (Num 4),
             ''minor_axis_length'' \<mapsto> Number (Num 2)]"
  let ?h = "\<lambda>a::nat. ?d"
  obtain h' where run: "assign_AP_and_RL_diameter ?h (Ref 0) = Inr (h', Ref 0)"
    by (simp add: assign_AP_and_RL_diameter_def getitem_def Let_def)
  from assign_in_place [OF run]
  have "dom (h' 0) = dom ?d \<union> {''RL_diameter'', ''AP_diameter''}"
    and "\<forall>k. k \<noteq> ''RL_diameter'' \<longrightarrow> k \<noteq> ''AP_diameter'' \<longrightarrow> h' 0 k = ?d k"
    and "\<forall>b. b \<noteq> 0 \<longrightarrow> h' b = ?d"
    by auto
  with run show ?thesis by auto
qed

section \<open>The two rectangles, evaluated\<close>

text \<open>
  A square of one value \<open>c\<close> with an even side: the code's quotient is not a number
  for \<open>c = 0\<close>, 1 for \<open>c = 1\<close> and 0 for any other value, while the two halves,
  as label images, overlap fully whenever \<open>c\<close> is not 0.
\<close>

lemma rows_of_replicate: "rows_of m n (replicate (m * n) c) = replicate m (replicate n c)"
proof (induction m)
  case 0
  show ?case by simp
next
  case (Suc m)
  have "replicate (Suc m * n) c = replicate n c @ replicate (m * n) c"
    by (simp add: replicate_add)
  with Suc show ?case by simp
qed

lemma nearest_constant:
  assumes "\<forall>c\<in>set cs. nearest img [c] = [v]"
  shows "nearest img cs = replicate (length cs) v"
  using assms by (induction cs) (auto simp: nearest_def)

lemma shape1_replicate: "0 < n \<Longrightarrow> shape1 (replicate n row) = length row"
  by (cases n) (simp_all add: shape1_def)

lemma halves_constant:
  assumes "0 < n"
  shows "left_image (replicate n (replicate n c)) = replicate n (replicate (n div 2) c)"
    and "right_image (replicate n (replicate n c)) = replicate n (replicate (n - n div 2) c)"
  using assms by (simp_all add: left_image_def right_image_def shape1_replicate)

lemma np_sum_constant: "np_sum (replicate n (replicate h c)) = real n * (real h * c)"
  by (simp add: np_sum_def sum_list_replicate)

lemma masked_sum_constant:
  "masked_sum (replicate n (replicate h c)) (replicate n (replicate h c)) =
     (if c = 1 then real n * real h else 0)"
  by (simp add: masked_sum_def zip_replicate sum_list_replicate)

lemma dice_symmetry_constant:
  assumes "even n" and "0 < n"
  shows "dice_symmetry (replicate n (replicate n c)) =
           (if c = 0 then Inr NonFinite else Inr (Num (if c = 1 then 1 else 0)))"
proof -
  from assms(1) have half: "n - n div 2 = n div 2" by presburger
  from assms have hpos: "0 < n div 2" by presburger
  show ?thesis
    using assms(2) hpos
    by (simp add: dice_symmetry_def Let_def halves_constant half shape1_replicate
        np_sum_constant masked_sum_constant)
qed

lemma counts_constant:
  assumes "c \<noteq> 0"
  shows "foreground_count (replicate n (replicate h c)) = n * h"
    and "overlap_count (replicate n (replicate h c)) (replicate n (replicate h c)) = n * h"
  using assms
  by (simp_all add: foreground_count_def overlap_count_def zip_replicate length_concat
      sum_list_replicate)

lemma dice_overlap_constant:
  assumes "even n" and "0 < n" and "c \<noteq> 0"
  shows "dice_overlap (left_image (replicate n (replicate n c)))
                      (right_image (replicate n (replicate n c))) = 1"
proof -
  from assms(1) have half: "n - n div 2 = n div 2" by presburger
  from assms(1,2) have hpos: "0 < n div 2" by presburger
  show ?thesis
    using assms(2,3) hpos
    by (simp add: dice_overlap_def halves_constant half counts_constant)
qed

text \<open>
  At resolution 0.5 the grid has 128 samples per axis from -16 to 15.75. With centroid
  \<open>(39.5, 39.5)\<close> and orientation 0 every sampled coordinate is
  \<open>(39.5 + gx, 39.5)\<close>: the samples lie on column 40, rows 24 to 55. There the
  outline has no pixel and the filled rectangle has all of its value.
\<close>

lemma mgrid_axis_16:
  "mgrid_axis 16 = Inr (map (\<lambda>k. - 16 + real k * 0.25) [0..<128])"
  by (simp add: mgrid_axis_def)

lemma length_coordinates_grid: "length (coordinates_grid g) = length g * length g"
  by (simp add: coordinates_grid_def length_concat comp_def sum_list_triv)

lemma set_coordinates_grid: "set (coordinates_grid g) = set g \<times> set g"
  by (auto simp: coordinates_grid_def)

lemma ring_column_clear:
  assumes "24 \<le> i" and "i \<le> (55::nat)"
  shows "ring_patch ! i ! 40 = 0"
  using assms by (simp add: ring_patch_def)

lemma block_column_full:
  assumes "24 \<le> i" and "i \<le> (55::nat)"
  shows "block_patch v ! i ! 40 = v"
  using assms by (simp add: block_patch_def)

lemma sample_on_column:
  assumes "- 16 \<le> gx" and "gx < 16"
    and "length img = 80" and "\<forall>i<80. length (img ! i) = 80"
    and "\<forall>i. 24 \<le> i \<and> i \<le> 55 \<longrightarrow> img ! i ! 40 = v"
  shows "nearest img [(79 / 2 + gx, 79 / 2)] = [v]"
proof -
  let ?i = "\<lfloor>79 / 2 + gx + 1 / 2\<rfloor>"
  have lo: "24 \<le> ?i" using assms(1) by linarith
  have hi: "?i \<le> 55" using assms(2) by linarith
  have j: "\<lfloor>79 / 2 + 1 / 2 :: real\<rfloor> = 40" by simp
  from lo hi have b: "24 \<le> nat ?i" "nat ?i \<le> 55" by linarith+
  then have "img ! nat ?i ! 40 = v" using assms(5) by blast
  moreover from b assms(4) have "length (img ! nat ?i) = 80" by simp
  ultimately show ?thesis
    using j lo hi assms(1,2,3) by (simp add: nearest_def Let_def)
qed

lemma grid_16_on_column:
  "\<forall>c\<in>set (coordinates_grid_image (79 / 2) (79 / 2) 0
               (coordinates_grid (map (\<lambda>k. - 16 + real k * 0.25) [0..<128]))).
     \<exists>gx. c = (79 / 2 + gx, 79 / 2) \<and> - 16 \<le> gx \<and> gx < 16"
  by (auto simp: coordinates_grid_image_def set_coordinates_grid)

lemma square_on_column:
  assumes "length img = 80" and "\<forall>i<80. length (img ! i) = 80"
    and "\<forall>i. 24 \<le> i \<and> i \<le> 55 \<longrightarrow> img ! i ! 40 = v"
    and "centroid r = (79 / 2, 79 / 2)" and "orientation r = 0"
    and "map_coordinates L = nearest"
  shows "resampled_square L img r 16 = Inr (replicate 128 (replicate 128 v))"
proof -
  let ?g = "map (\<lambda>k. - 16 + real k * 0.25) [0..<128]"
  let ?cgi = "coordinates_grid_image (79 / 2) (79 / 2) 0 (coordinates_grid ?g)"
  have len: "length ?cgi = 128 * 128"
    by (simp add: coordinates_grid_image_def length_coordinates_grid)
  then have ne: "?cgi \<noteq> []" by auto
  have "\<forall>c\<in>set ?cgi. nearest img [c] = [v]"
  proof
    fix c assume "c \<in> set ?cgi"
    with grid_16_on_column obtain gx where "c = (79 / 2 + gx, 79 / 2)" "- 16 \<le> gx" "gx < 16"
      by blast
    then show "nearest img [c] = [v]"
      using sample_on_column [OF _ _ assms(1,2,3)] by simp
  qed
  then have "nearest img ?cgi = replicate (128 * 128) v"
    using nearest_constant [of ?cgi img v] len by simp
  then have "reshape 128 (nearest img ?cgi) = Inr (replicate 128 (replicate 128 v))"
    using rows_of_replicate [of 128 128 v] by (simp add: reshape_def)
  then show ?thesis
    unfolding resampled_square_def mgrid_axis_16
    using ne assms(4,5,6) by (simp add: Let_def del: upt_Suc)
qed

lemma ring_patch_shape: "length ring_patch = 80" "\<forall>i<80. length (ring_patch ! i) = 80"
  by (simp_all add: ring_patch_def)

lemma block_patch_shape: "length (block_patch v) = 80" "\<forall>i<80. length (block_patch v ! i) = 80"
  by (simp_all add: block_patch_def)

lemma ring_square:
  "resampled_square ring_lib ring_patch ring_region 16 = Inr (replicate 128 (replicate 128 0))"
proof (rule square_on_column [OF ring_patch_shape])
  show "\<forall>i. 24 \<le> i \<and> i \<le> 55 \<longrightarrow> ring_patch ! i ! 40 = 0"
    using ring_column_clear by blast
qed (simp_all add: ring_region_def ring_lib_def)

lemma block_square_eq:
  "resampled_square block_lib (block_patch v) block_region 16 = Inr (block_square v)"
  unfolding block_square_def
proof (rule square_on_column [OF block_patch_shape])
  show "\<forall>i. 24 \<le> i \<and> i \<le> 55 \<longrightarrow> block_patch v ! i ! 40 = v"
    using block_column_full by blast
qed (simp_all add: block_region_def block_lib_def)

lemma ring_symmetry: "symmetry_of ring_lib ring_patch ring_region 16 = Inr NonFinite"
  by (simp add: symmetry_of_def ring_square dice_symmetry_constant)

lemma block_symmetry:
  "symmetry_of block_lib (block_patch v) block_region 16 =
     (if v = 0 then Inr NonFinite else Inr (Num (if v = 1 then 1 else 0)))"
  by (simp add: symmetry_of_def block_square_eq block_square_def dice_symmetry_constant)

lemma patch_zero_of_0: "patch_zero_of 0 img = img"
  by (simp add: patch_zero_of_def map_idI)

lemma singleton_selected:
  assumes "argsort L [area r] = [0]"
  shows "sc_region_of L [r] = Inr (Some r)"
  using assms by (simp add: sc_region_of_def)

lemma ring_selected: "sc_region_of ring_lib [ring_region] = Inr (Some ring_region)"
  by (rule singleton_selected) (simp add: ring_lib_def)

lemma block_selected: "sc_region_of block_lib [block_region] = Inr (Some block_region)"
  by (rule singleton_selected) (simp add: block_lib_def)

lemma ratio_value:
  "ratio_minor_major r =
     Inr (if major_axis_length r = 0 then 0 else minor_axis_length r / major_axis_length r)"
  by (simp add: ratio_minor_major_def py_truediv_def)

lemma ring_ratio:
  "ratio_minor_major ring_region = Inr (4 * sqrt (54769 / 196) / (4 * sqrt (102129 / 196)))"
  by (simp add: ratio_minor_major_def py_truediv_def ring_region_def)

lemma block_ratio:
  "ratio_minor_major block_region = Inr (4 * sqrt (399 / 12) / (4 * sqrt (1599 / 12)))"
  by (simp add: ratio_minor_major_def py_truediv_def block_region_def)

lemma size_grid_half: "size_grid_of r (Some (1 / 2, 1 / 2)) = Inr 16"
  by (simp add: size_grid_of_def py_truediv_def)

lemma ring_properties2d:
  "properties2d ring_lib ring_patch (Some (1 / 2, 1 / 2)) = Inr (Some ring_properties)"
proof -
  have rp: "regionprops ring_lib ring_patch = [ring_region]"
    by (simp add: ring_lib_def)
  show ?thesis
    unfolding properties2d_def rp ring_selected
    by (simp add: ring_ratio size_grid_half ring_symmetry ring_properties_def)
      (simp add: ring_region_def)
qed

lemma block_regionprops: "v = 1 \<or> v = 3 \<Longrightarrow> regionprops block_lib (block_patch v) = [block_region]"
  by (auto simp: block_lib_def)

lemma block_properties2d:
  assumes "v = 1 \<or> v = 3"
  shows "properties2d block_lib (block_patch v) (Some (1 / 2, 1 / 2)) =
           Inr (Some (block_properties (Num (if v = 1 then 1 else 0))))"
proof -
  have rp: "regionprops block_lib (block_patch v) = [block_region]"
    using assms by (auto simp: block_lib_def)
  have nz: "v \<noteq> 0" using assms by auto
  show ?thesis
    unfolding properties2d_def rp block_selected
    using nz by (simp add: block_ratio size_grid_half block_symmetry block_properties_def)
      (simp add: block_region_def)
qed

lemma block_overlap: "v \<noteq> 0 \<Longrightarrow> dice_overlap (left_image (block_square v)) (right_image (block_square v)) = 1"
  unfolding block_square_def by (rule dice_overlap_constant) simp_all

lemma blank_not_ring: "blank_patch \<noteq> ring_patch"
proof
  assume "blank_patch = ring_patch"
  then have "blank_patch ! 10 ! 20 = ring_patch ! 10 ! 20" by simp
  then show False by (simp add: blank_patch_def ring_patch_def)
qed

lemma blank_properties2d: "properties2d ring_lib blank_patch resolution = Inr None"
  using blank_not_ring by (simp add: properties2d_def ring_lib_def sc_region_of_def)

text \<open>The sampling loop on the two centerlines, and the run on the first.\<close>

lemma assign_none: "assign_AP_and_RL_diameter h PyNone = Inl TypeError"
  by (simp add: assign_AP_and_RL_diameter_def)

lemma loop_body_none:
  assumes "properties2d L (patch_zero_of 0 (extract_perpendicular_square cl index)) (Some (1 / 2, 1 / 2)) = Inr None"
  shows "loop_body L cl fname_discs st index = Inl TypeError"
  using assms by (simp add: loop_body_def assign_none)

lemma ring_assign:
  "assign_AP_and_RL_diameter (h(0 := ring_properties)) (Ref 0) = Inr (h(0 := ring_assigned), Ref 0)"
  by (simp add: assign_AP_and_RL_diameter_def getitem_def ring_properties_def ring_assigned_def Let_def)

lemma ring_append_all:
  "append_all (init_properties(''incremental_length'' \<mapsto> [Num 0], ''z_slice'' \<mapsto> [Num 7]))
     ring_assigned property_list = Inr ring_series"
  by (simp add: property_list_def getitem_def ring_properties_def ring_assigned_def series_append_def
      init_properties_def ring_series_def fun_eq_iff)

lemma ring_loop_body:
  "loop_body ring_lib ring_centerline False
          \<lparr>properties = init_properties, store = (\<lambda>a. Map.empty), warnings = []\<rparr> 0 =
     Inr \<lparr>properties = ring_series, store = (\<lambda>a. Map.empty)(0 := ring_assigned), warnings = []\<rparr>"
proof -
  have p2d: "properties2d ring_lib (patch_zero_of 0 (extract_perpendicular_square ring_centerline 0))
               (Some (0.5, 0.5)) = Inr (Some ring_properties)"
    using ring_properties2d by (simp add: patch_zero_of_0 ring_centerline_def)
  have a1: "series_append init_properties ''incremental_length'' (Num 0) =
              Inr (init_properties(''incremental_length'' \<mapsto> [Num 0]))"
    by (simp add: series_append_def init_properties_def)
  have a2: "series_append (init_properties(''incremental_length'' \<mapsto> [Num 0])) ''z_slice'' (Num 7) =
              Inr (init_properties(''incremental_length'' \<mapsto> [Num 0], ''z_slice'' \<mapsto> [Num 7]))"
    by (simp add: series_append_def init_properties_def)
  have lg: "list_get (incremental_length ring_centerline) 0 = Inr 0"
    by (simp add: list_get_def ring_centerline_def)
  have z: "transfo_phys2pix_z ring_centerline 0 = 7"
    by (simp add: ring_centerline_def)
  show ?thesis
    unfolding loop_body_def Let_def p2d
    by (simp add: ring_assign lg a1 a2 z append_discs_def ring_append_all)
qed

lemma ring_loop_body_gap:
  "loop_body ring_lib gap_centerline False
          \<lparr>properties = init_properties, store = (\<lambda>a. Map.empty), warnings = []\<rparr> 0 =
     Inr \<lparr>properties = ring_series, store = (\<lambda>a. Map.empty)(0 := ring_assigned), warnings = []\<rparr>"
proof -
  have p2d: "properties2d ring_lib (patch_zero_of 0 (extract_perpendicular_square gap_centerline 0))
               (Some (0.5, 0.5)) = Inr (Some ring_properties)"
    using ring_properties2d by (simp add: patch_zero_of_0 gap_centerline_def)
  have a1: "series_append init_properties ''incremental_length'' (Num 0) =
              Inr (init_properties(''incremental_length'' \<mapsto> [Num 0]))"
    by (simp add: series_append_def init_properties_def)
  have a2: "series_append (init_properties(''incremental_length'' \<mapsto> [Num 0])) ''z_slice'' (Num 7) =
              Inr (init_properties(''incremental_length'' \<mapsto> [Num 0], ''z_slice'' \<mapsto> [Num 7]))"
    by (simp add: series_append_def init_properties_def)
  have lg: "list_get (incremental_length gap_centerline) 0 = Inr 0"
    by (simp add: list_get_def gap_centerline_def)
  have z: "transfo_phys2pix_z gap_centerline 0 = 7"
    by (simp add: gap_centerline_def)
  show ?thesis
    unfolding loop_body_def Let_def p2d
    by (simp add: ring_assign lg a1 a2 z append_discs_def ring_append_all)
qed

lemma gap_second_point:
  "loop_body ring_lib gap_centerline False st (Suc 0) = Inl TypeError"
  by (rule loop_body_none) (simp add: gap_centerline_def patch_zero_of_0 blank_properties2d)

lemma ring_average: "average_properties ring_series = Inr ring_shape"
  by (simp add: average_properties_def ring_series_def sorting_values_def property_list_def
      np_mean_def ring_shape_def)

lemma ring_run:
  "compute_properties_along_centerline ring_lib ring_centerline False 0 =
     Inr ([], property_list, ring_shape)"
proof -
  have n: "[0..<number_of_points ring_centerline] = [0]"
    by (simp add: ring_centerline_def)
  show ?thesis
    unfolding compute_properties_along_centerline_def n
    by (simp add: ring_loop_body finalize_def smooth_properties_def ring_average)
qed


section \<open>Properties of the region extraction\<close>

subsection \<open>The largest region\<close>

lemma sorted_map_last_max:
  assumes "sorted (map f ys)" and "y \<in> set ys"
  shows "f y \<le> f (last ys)"
proof -
  from assms(2) have ne: "ys \<noteq> []" by auto
  from assms(2) obtain i where i: "i < length ys" "ys ! i = y"
    by (auto simp: in_set_conv_nth)
  have "map f ys ! i \<le> map f ys ! (length ys - 1)"
    using assms(1) i(1) by (intro sorted_nth_mono) auto
  with i ne show ?thesis by (simp add: last_conv_nth)
qed

text \<open>
  Claim C5, amended. When the labelling yields at least one region and
  \<^verbatim>\<open>np.argsort\<close> returns the indices of the areas in an ascending order of
  area, the region taken, \<open>regions[ix[-1]]\<close>, has the maximal area. Which of several
  regions of maximal area is taken is left to the sort.
\<close>

theorem largest_region_selected:
  assumes "regions \<noteq> []"
    and "set (argsort L (map area regions)) = {0..<length regions}"
    and "sorted (map (\<lambda>i. map area regions ! i) (argsort L (map area regions)))"
  shows "sc_region_of L regions = Inr (Some (regions ! selected_index L regions)) \<and>
         selected_index L regions < length regions \<and>
         area (regions ! selected_index L regions) = Max (set (map area regions))"
proof -
  let ?areas = "map area regions"
  let ?ix = "argsort L ?areas"
  let ?k = "last ?ix"
  from assms(1,2) have ne: "?ix \<noteq> []"
    by (metis atLeastLessThan_empty_iff2 length_greater_0_conv set_empty)
  then have "?k \<in> set ?ix" by simp
  with assms(2) have k_lt: "?k < length regions" by simp
  have upper: "?areas ! i \<le> ?areas ! ?k" if "i < length regions" for i
    using sorted_map_last_max [OF assms(3), of i] that assms(2) by simp
  have "Max (set ?areas) = ?areas ! ?k"
  proof (rule Max_eqI)
    show "finite (set ?areas)" by simp
    show "?areas ! ?k \<in> set ?areas" using k_lt by simp
    fix a assume "a \<in> set ?areas"
    then obtain i where "i < length ?areas" "?areas ! i = a"
      by (auto simp: in_set_conv_nth simp del: set_map)
    with upper show "a \<le> ?areas ! ?k" by auto
  qed
  with k_lt have mx: "area (regions ! ?k) = Max (set ?areas)" by simp
  have "sc_region_of L regions = Inr (Some (regions ! ?k))"
    using assms(1) ne k_lt by (simp add: sc_region_of_def Let_def)
  with k_lt mx show ?thesis by (simp add: selected_index_def)
qed

text \<open>Areas 1, 196, 1: the region of area 196, at index 1, is taken.\<close>

theorem largest_region_selected_witness:
  "sc_region_of ring_lib [dot_region, ring_region, dot_region] = Inr (Some ring_region) \<and>
   selected_index ring_lib [dot_region, ring_region, dot_region] = 1 \<and>
   area ring_region = Max (set (map area [dot_region, ring_region, dot_region]))"
proof -
  let ?rs = "[dot_region, ring_region, dot_region]"
  have ix: "argsort ring_lib (map area ?rs) = [0, 2, 1]"
    by (simp add: ring_lib_def dot_region_def ring_region_def upt_rec)
  have ne: "?rs \<noteq> []" by simp
  have s: "set (argsort ring_lib (map area ?rs)) = {0..<length ?rs}"
    unfolding ix by auto
  have o: "sorted (map (\<lambda>i. map area ?rs ! i) (argsort ring_lib (map area ?rs)))"
    unfolding ix by (simp add: dot_region_def ring_region_def)
  have i: "selected_index ring_lib ?rs = 1"
    using ix by (simp add: selected_index_def)
  from largest_region_selected [OF ne s o] i show ?thesis
    by (simp add: dot_region_def ring_region_def)
qed

lemma tie_areas_eq: "map area tie_regions = tie_areas"
  by (simp add: tie_regions_def tie_areas_def square_region_def upt_rec)

text \<open>
  Claim C5 as stated fails on the twenty regions: the regions at indices 0 to 4 tie
  for the maximal area 9, the sort puts index 0 last, and the region taken is the
  first of the five in traversal order, not the last.
\<close>

theorem tied_regions_first_selected:
  "regionprops tie_lib tie_patch = tie_regions \<and>
   map area tie_regions = tie_areas \<and>
   argsort tie_lib tie_areas = tie_order \<and>
   set tie_order = {0..<20} \<and>
   sorted (map (\<lambda>i. tie_areas ! i) tie_order) \<and>
   sc_region_of tie_lib tie_regions = Inr (Some (tie_regions ! 0)) \<and>
   area (tie_regions ! 0) = 9 \<and>
   area (tie_regions ! 4) = 9 \<and>
   Max (set (map area tie_regions)) = 9 \<and>
   tie_regions ! 4 \<noteq> tie_regions ! 0"
proof -
  have rp: "regionprops tie_lib tie_patch = tie_regions" by (simp add: tie_lib_def)
  have ix: "argsort tie_lib tie_areas = tie_order" by (simp add: tie_lib_def)
  have "set tie_order = set [0..<20]"
    by (auto simp: tie_order_def upt_rec)
  then have st: "set tie_order = {0..<20}" by simp
  have so: "sorted (map (\<lambda>i. tie_areas ! i) tie_order)"
    by (simp add: tie_order_def tie_areas_def)
  have len: "length tie_regions = 20" by (simp add: tie_regions_def)
  have sel: "sc_region_of tie_lib tie_regions = Inr (Some (tie_regions ! 0))"
    using len by (simp add: sc_region_of_def Let_def tie_areas_eq ix) (simp add: tie_order_def)
  have a0: "area (tie_regions ! 0) = 9" and a4: "area (tie_regions ! 4) = 9"
    by (simp_all add: tie_regions_def square_region_def)
  have mx: "Max (set (map area tie_regions)) = 9"
    by (simp add: tie_areas_eq tie_areas_def)
  have ne: "tie_regions ! 4 \<noteq> tie_regions ! 0"
  proof
    assume "tie_regions ! 4 = tie_regions ! 0"
    then have "centroid (tie_regions ! 4) = centroid (tie_regions ! 0)" by simp
    then show False by (simp add: tie_regions_def square_region_def)
  qed
  from rp tie_areas_eq ix st so sel a0 a4 mx ne show ?thesis by blast
qed

subsection \<open>The axis ratio\<close>

lemma properties2d_ratio:
  assumes "properties2d L img resolution = Inr (Some d)"
    and "sc_region_of L (regionprops L img) = Inr (Some r)"
    and "ratio_minor_major r = Inr q"
  shows "d ''ratio_minor_major'' = Some (Number (Num q))"
  using assms
  by (auto simp: properties2d_def Let_def split: sum.splits)

text \<open>
  Claim C2. For the region taken from a patch, whose axis lengths satisfy
  \<open>0 \<le> minor \<le> major\<close> (they are \<open>4 sqrt l\<close> for the eigenvalues \<open>l2 \<le> l1\<close> of the
  inertia tensor), the ratio computation does not raise: its value is minor / major,
  and 0.0 when the major axis length is 0; the value lies in [0, 1] and is what the
  returned dictionary holds under \<open>ratio_minor_major\<close>.
\<close>

theorem ratio_in_unit_interval:
  assumes "sc_region_of L (regionprops L img) = Inr (Some r)"
    and "0 \<le> minor_axis_length r" and "minor_axis_length r \<le> major_axis_length r"
  shows "ratio_minor_major r =
           Inr (if major_axis_length r = 0 then 0 else minor_axis_length r / major_axis_length r) \<and>
         0 \<le> (if major_axis_length r = 0 then 0 else minor_axis_length r / major_axis_length r) \<and>
         (if major_axis_length r = 0 then 0 else minor_axis_length r / major_axis_length r) \<le> 1 \<and>
         (\<forall>d. properties2d L img resolution = Inr (Some d) \<longrightarrow>
              d ''ratio_minor_major'' =
                Some (Number (Num (if major_axis_length r = 0 then 0
                                   else minor_axis_length r / major_axis_length r))))"
proof -
  let ?q = "if major_axis_length r = 0 then 0 else minor_axis_length r / major_axis_length r"
  have v: "ratio_minor_major r = Inr ?q" by (rule ratio_value)
  have "0 \<le> ?q" using assms(2,3) by simp
  moreover have "?q \<le> 1" using assms(2,3) by simp
  moreover have "\<forall>d. properties2d L img resolution = Inr (Some d) \<longrightarrow>
              d ''ratio_minor_major'' = Some (Number (Num ?q))"
    using properties2d_ratio [OF _ assms(1) v] by blast
  ultimately show ?thesis using v by blast
qed

text \<open>A single pixel has ratio 0.0; the outline has ratio sqrt 54769 / sqrt 102129.\<close>

theorem ratio_in_unit_interval_witness:
  "ratio_minor_major dot_region = Inr 0 \<and>
   properties2d ring_lib ring_patch (Some (1 / 2, 1 / 2)) = Inr (Some ring_properties) \<and>
   ring_properties ''ratio_minor_major'' = Some (Number (Num (sqrt (54769 / 196) / sqrt (102129 / 196)))) \<and>
   sqrt (54769 / 196) / sqrt (102129 / 196) \<le> 1"
proof -
  let ?L = "ring_lib\<lparr>regionprops := (\<lambda>img. [dot_region])\<rparr>"
  have d: "sc_region_of ?L (regionprops ?L blank_patch) = Inr (Some dot_region)"
    by (simp add: sc_region_of_def ring_lib_def)
  have r: "sc_region_of ring_lib (regionprops ring_lib ring_patch) = Inr (Some ring_region)"
    using ring_selected by (simp add: ring_lib_def)
  have "ratio_minor_major dot_region = Inr 0"
    using ratio_in_unit_interval [OF d, of None] by (simp add: dot_region_def)
  moreover have "ring_properties ''ratio_minor_major'' = Some (Number (Num (sqrt (54769 / 196) / sqrt (102129 / 196))))
        \<and> sqrt (54769 / 196) / sqrt (102129 / 196) \<le> 1"
    using ratio_in_unit_interval [OF r, of "Some (1 / 2, 1 / 2)"] ring_properties2d
    by (simp add: ring_region_def)
  ultimately show ?thesis using ring_properties2d by simp
qed

subsection \<open>The symmetry score\<close>

lemma binary_sum_list:
  "set xs \<subseteq> {0, 1} \<Longrightarrow> sum_list xs = real (length (filter (\<lambda>v. v \<noteq> 0) xs))"
  by (induction xs) auto

lemma np_sum_binary:
  "\<forall>row\<in>set img. set row \<subseteq> {0, 1} \<Longrightarrow> np_sum img = real (foreground_count img)"
  by (induction img) (auto simp: np_sum_def foreground_count_def binary_sum_list)

lemma masked_row_binary:
  "set l \<subseteq> {0, 1} \<Longrightarrow> set r \<subseteq> {0, 1} \<Longrightarrow>
     sum_list (map fst (filter (\<lambda>(l, r). r = 1) (zip l r))) =
     real (length (filter (\<lambda>(l, r). l \<noteq> 0 \<and> r \<noteq> (0::real)) (zip l r)))"
proof (induction l arbitrary: r)
  case Nil
  then show ?case by simp
next
  case (Cons a l)
  then show ?case by (cases r) auto
qed

lemma masked_sum_binary:
  "\<forall>row\<in>set left. set row \<subseteq> {0, 1} \<Longrightarrow> \<forall>row\<in>set right. set row \<subseteq> {0, 1} \<Longrightarrow>
     masked_sum left right = real (overlap_count left right)"
proof (induction left arbitrary: right)
  case Nil
  then show ?case by (simp add: masked_sum_def overlap_count_def)
next
  case (Cons lrow left)
  show ?case
  proof (cases right)
    case Nil
    then show ?thesis by (simp add: masked_sum_def overlap_count_def)
  next
    case (Cons rrow right')
    from Cons.prems Cons have "masked_sum left right' = real (overlap_count left right')"
      by (intro Cons.IH) simp_all
    moreover from Cons.prems Cons have "set lrow \<subseteq> {0, 1}" "set rrow \<subseteq> {0, 1}" by simp_all
    ultimately show ?thesis
      using Cons masked_row_binary [of lrow rrow]
      by (simp add: masked_sum_def overlap_count_def)
  qed
qed

lemma overlap_row_le1:
  "length (filter (\<lambda>(l, r). l \<noteq> 0 \<and> r \<noteq> (0::real)) (zip l r)) \<le> length (filter (\<lambda>v. v \<noteq> (0::real)) l)"
proof (induction l arbitrary: r)
  case Nil
  show ?case by simp
next
  case (Cons a l)
  show ?case
  proof (cases r)
    case Nil
    then show ?thesis by simp
  next
    case (Cons b r')
    with Cons.IH [of r'] show ?thesis by (simp add: le_SucI)
  qed
qed

lemma overlap_row_le2:
  "length (filter (\<lambda>(l, r). l \<noteq> 0 \<and> r \<noteq> (0::real)) (zip l r)) \<le> length (filter (\<lambda>v. v \<noteq> (0::real)) r)"
proof (induction l arbitrary: r)
  case Nil
  show ?case by simp
next
  case (Cons a l)
  show ?case
  proof (cases r)
    case Nil
    then show ?thesis by simp
  next
    case (Cons b r')
    with Cons.IH [of r'] show ?thesis by (simp add: le_SucI)
  qed
qed

lemma overlap_le:
  "overlap_count left right \<le> foreground_count left"
  "overlap_count left right \<le> foreground_count right"
proof (induction left arbitrary: right)
  case Nil
  { case 1 show ?case by (simp add: overlap_count_def) }
  { case 2 show ?case by (simp add: overlap_count_def) }
next
  case (Cons lrow left)
  { case 1
    show ?case
    proof (cases right)
      case Nil
      then show ?thesis by (simp add: overlap_count_def)
    next
      case (Cons rrow right')
      with Cons.IH(1) [of right'] overlap_row_le1 [of lrow rrow] show ?thesis
        by (simp add: overlap_count_def foreground_count_def add_mono)
    qed }
  { case 2
    show ?case
    proof (cases right)
      case Nil
      then show ?thesis by (simp add: overlap_count_def)
    next
      case (Cons rrow right')
      with Cons.IH(2) [of right'] overlap_row_le2 [of lrow rrow] show ?thesis
        by (simp add: overlap_count_def foreground_count_def add_mono)
    qed }
qed

lemma foreground_split:
  "foreground_count (map (take h) sq) + foreground_count (map (\<lambda>row. rev (drop h row)) sq) =
     foreground_count sq"
proof (induction sq)
  case Nil
  then show ?case by (simp add: foreground_count_def)
next
  case (Cons row sq)
  have "length (filter (\<lambda>v. v \<noteq> 0) (take h row)) + length (filter (\<lambda>v. v \<noteq> 0) (drop h row))
        = length (filter (\<lambda>v. v \<noteq> 0) row)"
    by (metis append_take_drop_id filter_append length_append)
  moreover have "length (filter (\<lambda>v. v \<noteq> 0) (rev (drop h row))) = length (filter (\<lambda>v. v \<noteq> 0) (drop h row))"
    by (simp flip: rev_filter)
  ultimately show ?case using Cons
    by (simp add: foreground_count_def)
qed

lemma dice_symmetry_binary:
  assumes "dice_symmetry square_image = Inr s"
    and "\<forall>row\<in>set square_image. set row \<subseteq> {0, 1}"
    and "\<exists>row\<in>set square_image. 1 \<in> set row"
  shows "s = Num (dice_overlap (left_image square_image) (right_image square_image)) \<and>
         0 \<le> dice_overlap (left_image square_image) (right_image square_image) \<and>
         dice_overlap (left_image square_image) (right_image square_image) \<le> 1"
proof -
  let ?l = "left_image square_image" and ?r = "right_image square_image"
  have binl: "\<forall>row\<in>set ?l. set row \<subseteq> {0, 1}"
    using assms(2) by (auto simp: left_image_def dest!: in_set_takeD)
  have binr: "\<forall>row\<in>set ?r. set row \<subseteq> {0, 1}"
    using assms(2) by (auto simp: right_image_def dest!: in_set_dropD)
  from assms(3) obtain row where "row \<in> set square_image" "(1::real) \<in> set row" by blast
  then have "\<exists>y\<in>set square_image. \<exists>x\<in>set y. x \<noteq> 0"
    by (intro bexI [of _ row] bexI [of _ 1]) simp_all
  then have "foreground_count square_image > 0"
    by (simp add: foreground_count_def filter_empty_conv)
  then have pos: "foreground_count ?l + foreground_count ?r > 0"
    by (simp add: foreground_split left_image_def right_image_def)
  have den: "np_sum ?l + np_sum ?r = real (foreground_count ?l + foreground_count ?r)"
    using binl binr by (simp add: np_sum_binary)
  have num: "masked_sum ?l ?r = real (overlap_count ?l ?r)"
    using binl binr by (rule masked_sum_binary)
  have rpos: "0 < real (foreground_count ?l + foreground_count ?r)"
    using pos by (simp only: of_nat_0_less_iff)
  with den have nz: "np_sum ?l + np_sum ?r \<noteq> 0" by linarith
  have eq: "s = Num (dice_overlap ?l ?r)"
    using assms(1) nz num den
    by (auto simp: dice_symmetry_def Let_def dice_overlap_def mult.commute split: if_splits)
  have le: "2 * real (overlap_count ?l ?r) \<le> real (foreground_count ?l + foreground_count ?r)"
    using overlap_le [of ?l ?r] by simp
  have "dice_overlap ?l ?r \<le> 1"
    unfolding dice_overlap_def using le rpos by (simp only: divide_le_eq_1_pos)
  moreover have "0 \<le> dice_overlap ?l ?r"
    by (simp add: dice_overlap_def)
  ultimately show ?thesis using eq by simp
qed

lemma properties2d_symmetry:
  assumes "properties2d L img resolution = Inr (Some d)"
    and "sc_region_of L (regionprops L img) = Inr (Some r)"
    and "size_grid_of r resolution = Inr size_grid"
    and "resampled_square L img r size_grid = Inr square_image"
  shows "\<exists>s. dice_symmetry square_image = Inr s \<and> d ''symmetry'' = Some (Number s)"
  using assms
  by (auto simp: properties2d_def symmetry_of_def Let_def split: sum.splits)

text \<open>
  Claim C7, amended. Whenever \<^verbatim>\<open>properties2d\<close> returns a dictionary for a
  patch and the resampled square of the region taken holds only the values 0 and 1
  and at least one foreground pixel, the \<open>symmetry\<close> entry of the dictionary is the
  Dice overlap \<open>2 |L \<inter> R| / (|L| + |R|)\<close> of the left half and the mirrored right
  half of that square, and it lies in [0, 1].
\<close>

theorem symmetry_is_dice:
  assumes "properties2d L img resolution = Inr (Some d)"
    and "sc_region_of L (regionprops L img) = Inr (Some r)"
    and "size_grid_of r resolution = Inr size_grid"
    and "resampled_square L img r size_grid = Inr square_image"
    and "\<forall>row\<in>set square_image. set row \<subseteq> {0, 1}"
    and "\<exists>row\<in>set square_image. 1 \<in> set row"
  shows "d ''symmetry'' =
           Some (Number (Num (dice_overlap (left_image square_image) (right_image square_image)))) \<and>
         0 \<le> dice_overlap (left_image square_image) (right_image square_image) \<and>
         dice_overlap (left_image square_image) (right_image square_image) \<le> 1"
proof -
  from properties2d_symmetry [OF assms(1-4)] obtain s where
    s: "dice_symmetry square_image = Inr s" "d ''symmetry'' = Some (Number s)" by blast
  from dice_symmetry_binary [OF s(1) assms(5,6)] s(2) show ?thesis by simp
qed

text \<open>
  The filled rectangle of value 1: the square is all ones, the halves overlap fully
  and the symmetry returned is 1.
\<close>

theorem symmetry_is_dice_witness:
  "properties2d block_lib (block_patch 1) (Some (1 / 2, 1 / 2)) = Inr (Some (block_properties (Num 1))) \<and>
   resampled_square block_lib (block_patch 1) block_region 16 = Inr (block_square 1) \<and>
   block_properties (Num 1) ''symmetry'' =
     Some (Number (Num (dice_overlap (left_image (block_square 1)) (right_image (block_square 1))))) \<and>
   dice_overlap (left_image (block_square 1)) (right_image (block_square 1)) = 1"
proof -
  have p: "properties2d block_lib (block_patch 1) (Some (1 / 2, 1 / 2)) = Inr (Some (block_properties (Num 1)))"
    using block_properties2d [of 1] by simp
  have r: "sc_region_of block_lib (regionprops block_lib (block_patch 1)) = Inr (Some block_region)"
    by (simp add: block_regionprops block_selected)
  have b: "\<forall>row\<in>set (block_square 1). set row \<subseteq> {0, 1}"
    by (auto simp: block_square_def)
  have e: "\<exists>row\<in>set (block_square 1). 1 \<in> set row"
    by (auto simp: block_square_def)
  from symmetry_is_dice [OF p r size_grid_half block_square_eq b e] p block_square_eq [of 1] block_overlap [of 1]
  show ?thesis by simp
qed

text \<open>
  Claim C7 as stated fails twice. On the hollow rectangle the resampled square holds no
  foreground pixel and the symmetry returned is not a number. On the filled rectangle
  of value 3 the two halves are equal, so their Dice overlap is 1, but the mask
  \<^verbatim>\<open>right_image == 1\<close> selects nothing and the symmetry returned is 0.
\<close>

theorem symmetry_not_dice_overlap:
  "properties2d ring_lib ring_patch (Some (1 / 2, 1 / 2)) = Inr (Some ring_properties) \<and>
   ring_properties ''symmetry'' = Some (Number NonFinite) \<and>
   properties2d block_lib (block_patch 3) (Some (1 / 2, 1 / 2)) = Inr (Some (block_properties (Num 0))) \<and>
   block_properties (Num 0) ''symmetry'' = Some (Number (Num 0)) \<and>
   resampled_square block_lib (block_patch 3) block_region 16 = Inr (block_square 3) \<and>
   dice_overlap (left_image (block_square 3)) (right_image (block_square 3)) = 1"
  using ring_properties2d block_properties2d [of 3] block_square_eq [of 3] block_overlap [of 3]
  by (simp add: ring_properties_def block_properties_def)

section \<open>Properties of the series builder\<close>

text \<open>
  Claim C1. The claim asks that a point whose patch has no foreground region be logged
  and skipped. The loop passes the result of \<^verbatim>\<open>properties2d\<close> to
  \<^verbatim>\<open>assign_AP_and_RL_diameter\<close> before it tests for \<^verbatim>\<open>None\<close>, so the
  subscript on \<^verbatim>\<open>None\<close> raises TypeError and the warning branch is never
  reached: on the centerline whose second patch is empty the whole computation aborts.
\<close>

theorem background_patch_aborts:
  "compute_properties_along_centerline ring_lib gap_centerline False 0 = Inl TypeError"
proof -
  have n: "[0..<number_of_points gap_centerline] = [0, 1]"
    by (simp add: gap_centerline_def upt_rec)
  show ?thesis
    unfolding compute_properties_along_centerline_def n
    by (simp add: ring_loop_body_gap gap_second_point)
qed

lemma average_loop_keys:
  "average_loop p z_slice labels names = Inr shape \<Longrightarrow> map fst shape = names"
  by (induction names arbitrary: shape) (auto split: option.splits sum.splits)

lemma finalize_names:
  assumes "finalize smooth_factor progressive p = Inr (names, shape)"
  shows "names = property_list \<and> map fst shape = property_list"
  using assms
  by (auto simp: finalize_def average_properties_def split: sum.splits option.splits
      dest: average_loop_keys)

text \<open>
  Claim C10. A run that returns has returned the nine names of \<open>property_list\<close>, in
  that order, both as the list of names and as the keys of the averaged shape; none of
  the four companion series is a key of the averaged shape.
\<close>

theorem output_names:
  assumes "compute_properties_along_centerline L cl fname_discs smooth_factor =
             Inr (w, names, averaged_shape)"
  shows "names = [''area'', ''equivalent_diameter'', ''AP_diameter'', ''RL_diameter'',
                  ''ratio_minor_major'', ''eccentricity'', ''solidity'', ''orientation'', ''symmetry''] \<and>
         map fst averaged_shape = names \<and>
         ''incremental_length'' \<notin> fst ` set averaged_shape \<and>
         ''z_slice'' \<notin> fst ` set averaged_shape \<and>
         ''distance_from_C1'' \<notin> fst ` set averaged_shape \<and>
         ''vertebral_level'' \<notin> fst ` set averaged_shape"
proof -
  from assms obtain st :: loop_state where
    "finalize smooth_factor (progressive_length cl) (properties st) = Inr (names, averaged_shape)"
    by (auto simp: compute_properties_along_centerline_def split: sum.splits)
  then have k: "names = property_list" "map fst averaged_shape = property_list"
    using finalize_names by blast+
  have "fst ` set averaged_shape = set property_list"
    using k(2) by (metis set_map)
  with k show ?thesis by (simp add: property_list_def)
qed

theorem output_names_witness:
  "compute_properties_along_centerline ring_lib ring_centerline False 0 =
     Inr ([], property_list, ring_shape) \<and>
   property_list = [''area'', ''equivalent_diameter'', ''AP_diameter'', ''RL_diameter'',
                  ''ratio_minor_major'', ''eccentricity'', ''solidity'', ''orientation'', ''symmetry''] \<and>
   map fst ring_shape = property_list \<and>
   ''z_slice'' \<notin> fst ` set ring_shape"
  using output_names [OF ring_run] ring_run by simp

section \<open>Properties of the averaging and the smoothing\<close>

lemma first_seen_snoc:
  "first_seen (xs @ [x]) = (if x \<in> set xs then first_seen xs else first_seen xs @ [x])"
  by (simp add: first_seen_def)

lemma set_first_seen: "set (first_seen xs) = set xs"
  by (simp add: first_seen_def)

lemma list_ex_znum: "list_ex (\<lambda>s. py_eq s (znum z)) (map znum acc) \<longleftrightarrow> z \<in> set acc"
  by (induction acc) (auto simp: znum_def)

lemma sorting_values_from_first_seen:
  "sorting_values_from (map znum (first_seen pre)) (map znum zs) = map znum (first_seen (pre @ zs))"
proof (induction zs arbitrary: pre)
  case Nil
  show ?case by simp
next
  case (Cons z zs)
  have "sorting_values_from (map znum (first_seen (pre @ [z]))) (map znum zs)
          = map znum (first_seen ((pre @ [z]) @ zs))"
    by (rule Cons.IH)
  then show ?case
    by (cases "z \<in> set pre") (simp_all add: list_ex_znum set_first_seen first_seen_snoc)
qed

lemma sorting_values_first_seen:
  "sorting_values (map znum zs) = map znum (first_seen zs)"
  using sorting_values_from_first_seen [of "[]" zs]
  by (simp add: sorting_values_def first_seen_def)

lemma items_of_values_at:
  "length vs \<le> length zs \<Longrightarrow>
     items_of (map Num vs) (map znum zs) (znum label) = Inr (map Num (values_at label zs vs))"
proof (induction vs arbitrary: zs)
  case Nil
  show ?case by (simp add: values_at_def)
next
  case (Cons v vs)
  then obtain z zs' where zs: "zs = z # zs'" by (cases zs) auto
  with Cons.prems have "length vs \<le> length zs'" by simp
  from Cons.IH [OF this] zs show ?case
    by (simp add: values_at_def znum_def)
qed

lemma foldr_pn_add: "foldr pn_add (map Num xs) (Num 0) = Num (sum_list xs)"
  by (induction xs) auto

lemma np_mean_finite: "xs \<noteq> [] \<Longrightarrow> np_mean (map Num xs) = Num (arithmetic_mean xs)"
  by (simp add: np_mean_def foldr_pn_add arithmetic_mean_def)

lemma values_at_nonempty:
  "length vs = length zs \<Longrightarrow> label \<in> set zs \<Longrightarrow> values_at label zs vs \<noteq> []"
proof (induction zs arbitrary: vs)
  case Nil
  then show ?case by simp
next
  case (Cons z zs)
  then obtain v vs' where "vs = v # vs'" by (cases vs) auto
  with Cons show ?case by (auto simp: values_at_def)
qed

lemma averages_of_explicit:
  assumes "length vs = length zs" and "set labels \<subseteq> set zs"
  shows "averages_of (map Num vs) (map znum zs) (map znum labels) =
           Inr (map (\<lambda>label. Num (arithmetic_mean (values_at label zs vs))) labels)"
  using assms(2)
proof (induction labels)
  case Nil
  show ?case by simp
next
  case (Cons l labels)
  then have "l \<in> set zs" by simp
  with assms(1) have "values_at l zs vs \<noteq> []" by (rule values_at_nonempty)
  with Cons assms(1) show ?case
    by (simp add: items_of_values_at np_mean_finite)
qed

lemma average_loop_explicit:
  assumes "\<forall>name\<in>set names. p name = Some (map Num (V name)) \<and> length (V name) = length zs"
  shows "average_loop p (map znum zs) (map znum (first_seen zs)) names =
           Inr (map (\<lambda>name. (name, averaged_spec zs (V name))) names)"
  using assms
proof (induction names)
  case Nil
  show ?case by simp
next
  case (Cons name names)
  then show ?case
    by (simp add: averages_of_explicit set_first_seen averaged_spec_def)
qed

lemma average_properties_explicit:
  assumes "p ''z_slice'' = Some (map znum zs)"
    and "\<forall>name\<in>set property_list. p name = Some (map Num (V name)) \<and> length (V name) = length zs"
  shows "average_properties p = Inr (map (\<lambda>name. (name, averaged_spec zs (V name))) property_list)"
  using assms average_loop_explicit [of property_list p V zs]
  by (simp add: average_properties_def sorting_values_first_seen)

text \<open>
  Claim C3. For slice labels \<open>zs\<close> and series of as many finite samples each, the
  labels are collected in the order of their first occurrence, and the averaged shape
  holds, for every property and every such label, the arithmetic mean of the samples
  whose slice label is that label.
\<close>

theorem reaggregation_first_seen_mean:
  assumes "p ''z_slice'' = Some (map znum zs)"
    and "\<forall>name\<in>set property_list. p name = Some (map Num (V name)) \<and> length (V name) = length zs"
  shows "sorting_values (map znum zs) = map znum (first_seen zs) \<and>
         average_properties p =
           Inr (map (\<lambda>name. (name, map (\<lambda>label. Num (arithmetic_mean (values_at label zs (V name))))
                                      (first_seen zs))) property_list)"
  using average_properties_explicit [OF assms]
  by (simp add: sorting_values_first_seen averaged_spec_def)

text \<open>
  Labels 5, 5, 6, 6, 5, 7 come out as 5, 6, 7, and the value for 5 is the mean of the
  samples at indices 0, 1 and 4; labels 7, 5, 7, 6 come out as 7, 5, 6, not in
  numeric order.
\<close>

theorem reaggregation_first_seen_mean_witness:
  "sorting_values (map znum [5, 5, 6, 6, 5, 7]) = map znum [5, 6, 7] \<and>
   sorting_values (map znum [7, 5, 7, 6]) = map znum [7, 5, 6] \<and>
   average_properties
     (\<lambda>name. if name = ''z_slice'' then Some (map znum [5, 5, 6, 6, 5, 7])
             else Some (map Num [1, 2, 4, 8, 16, 32])) =
     Inr (map (\<lambda>name. (name, [Num ((1 + 2 + 16) / 3), Num ((4 + 8) / 2), Num 32])) property_list)"
proof -
  let ?p = "\<lambda>name. if name = ''z_slice'' then Some (map znum [5, 5, 6, 6, 5, 7])
             else Some (map Num [1, 2, 4, 8, 16, 32])"
  have z: "?p ''z_slice'' = Some (map znum [5, 5, 6, 6, 5, 7])" by simp
  have v: "\<forall>name\<in>set property_list. ?p name = Some (map Num ((\<lambda>n. [1, 2, 4, 8, 16, 32]) name)) \<and>
             length ((\<lambda>n. [1, 2, 4, 8, 16, 32 :: real]) name) = length [5, 5, 6, 6, 5, 7 :: int]"
    by (simp add: property_list_def)
  have fs: "first_seen [5, 5, 6, 6, 5, 7 :: int] = [5, 6, 7]"
    by (simp add: first_seen_def)
  have other: "sorting_values (map znum [7, 5, 7, 6]) = map znum [7, 5, 6]"
    by (simp add: sorting_values_def znum_def)
  from reaggregation_first_seen_mean [OF z v] other show ?thesis
    by (simp add: fs values_at_def arithmetic_mean_def)
qed

text \<open>
  Claim C4. With smoothing factor 0 the series are left as they are, and every value
  of the result is the arithmetic mean of the samples mapped to its slice.
\<close>

theorem no_smoothing_exact_average:
  assumes "p ''z_slice'' = Some (map znum zs)"
    and "\<forall>name\<in>set property_list. p name = Some (map Num (V name)) \<and> length (V name) = length zs"
  shows "smooth_properties 0 progressive p = Inr p \<and>
         finalize 0 progressive p =
           Inr (property_list,
                map (\<lambda>name. (name, map (\<lambda>label. Num (arithmetic_mean (values_at label zs (V name))))
                                      (first_seen zs))) property_list)"
  using average_properties_explicit [OF assms]
  by (simp add: finalize_def smooth_properties_def averaged_spec_def)

theorem no_smoothing_exact_average_witness:
  "finalize 0 [1 / 2]
     (\<lambda>name. if name = ''z_slice'' then Some (map znum [5, 5, 6, 6, 5, 7])
             else Some (map Num [1, 2, 4, 8, 16, 32])) =
     Inr (property_list,
          map (\<lambda>name. (name, [Num ((1 + 2 + 16) / 3), Num ((4 + 8) / 2), Num 32])) property_list)"
proof -
  let ?p = "\<lambda>name. if name = ''z_slice'' then Some (map znum [5, 5, 6, 6, 5, 7])
             else Some (map Num [1, 2, 4, 8, 16, 32])"
  have z: "?p ''z_slice'' = Some (map znum [5, 5, 6, 6, 5, 7])" by simp
  have v: "\<forall>name\<in>set property_list. ?p name = Some (map Num ((\<lambda>n. [1, 2, 4, 8, 16, 32]) name)) \<and>
             length ((\<lambda>n. [1, 2, 4, 8, 16, 32 :: real]) name) = length [5, 5, 6, 6, 5, 7 :: int]"
    by (simp add: property_list_def)
  have fs: "first_seen [5, 5, 6, 6, 5, 7 :: int] = [5, 6, 7]"
    by (simp add: first_seen_def)
  from no_smoothing_exact_average [OF z v, of "[1 / 2]"] show ?thesis
    by (simp add: fs values_at_def arithmetic_mean_def)
qed















end
